theory Spec2Isabelle
  imports Complex_Main
begin

section \<open>Strings and regular expressions of the scoring engine\<close>

text \<open>
  A JavaScript string is a sequence of UTF-16 code units; \<open>text.length\<close> counts them.
  A code unit is modelled as a natural number, and the literals of the source are written
  as Isabelle strings and converted with \<open>js\<close>.
\<close>

type_synonym jsstring = "nat list"

definition js :: "string \<Rightarrow> jsstring" where
  "js s = map of_char s"

text \<open>
  Case folding of a regular expression with the \<open>i\<close> flag (and without the \<open>u\<close> flag).
  ECMAScript's Canonicalize never maps a code unit of 128 or more to one below 128, and
  every literal of the source is ASCII, so only the folding of \<open>a\<close>..\<open>z\<close> decides a match.
\<close>

definition canonicalize :: "nat \<Rightarrow> nat" where
  "canonicalize c = (if 97 \<le> c \<and> c \<le> 122 then c - 32 else c)"

text \<open>The character classes of the source: \<open>[A-Z]\<close>, \<open>\d\<close>, \<open>[!?]\<close> and the dot,
  which matches every code unit but the four line terminators.\<close>

definition upperAZ :: "nat \<Rightarrow> bool" where
  "upperAZ c = (65 \<le> c \<and> c \<le> 90)"

definition digit :: "nat \<Rightarrow> bool" where
  "digit c = (48 \<le> c \<and> c \<le> 57)"

definition bangOrQuestion :: "nat \<Rightarrow> bool" where
  "bangOrQuestion c = (c = 33 \<or> c = 63)"

definition dot :: "nat \<Rightarrow> bool" where
  "dot c = (c \<noteq> 10 \<and> c \<noteq> 13 \<and> c \<noteq> 8232 \<and> c \<noteq> 8233)"

text \<open>
  The fragment of regular expressions the source uses: literal text (case sensitive, or
  under the \<open>i\<close> flag), one code unit of a class, a greedy star over a class,
  concatenation, alternation and the greedy option \<open>?\<close>.
\<close>

datatype regex =
    Str string
  | StrI string
  | Cls "nat \<Rightarrow> bool"
  | Star "nat \<Rightarrow> bool"
  | Seq regex regex
  | Alt regex regex
  | Opt regex

definition Plus :: "(nat \<Rightarrow> bool) \<Rightarrow> regex" where
  "Plus P = Seq (Cls P) (Star P)"

text \<open>\<open>lit i p s\<close>: the rest of \<open>s\<close> after the literal \<open>p\<close>, if \<open>s\<close> starts with it.\<close>

fun lit :: "bool \<Rightarrow> string \<Rightarrow> jsstring \<Rightarrow> jsstring list" where
  "lit i [] s = [s]"
| "lit i (p # ps) [] = []"
| "lit i (p # ps) (c # cs) =
     (if (if i then canonicalize (of_char p) = canonicalize c else of_char p = c)
      then lit i ps cs else [])"

fun star :: "(nat \<Rightarrow> bool) \<Rightarrow> jsstring \<Rightarrow> jsstring list" where
  "star P [] = [[]]"
| "star P (c # cs) = (if P c then star P cs else []) @ [c # cs]"

text \<open>
  \<open>rests r s\<close>: what is left of \<open>s\<close> after each way \<open>r\<close> matches at the start of
  \<open>s\<close>, in the order in which the backtracking matcher of JavaScript tries them (a greedy
  quantifier tries the longest first, an alternation its left branch first).
\<close>

fun rests :: "regex \<Rightarrow> jsstring \<Rightarrow> jsstring list" where
  "rests (Str p) s = lit False p s"
| "rests (StrI p) s = lit True p s"
| "rests (Cls P) s = (case s of [] \<Rightarrow> [] | c # cs \<Rightarrow> if P c then [cs] else [])"
| "rests (Star P) s = star P s"
| "rests (Seq a b) s = concat (map (rests b) (rests a s))"
| "rests (Alt a b) s = rests a s @ rests b s"
| "rests (Opt a) s = rests a s @ [s]"

text \<open>\<open>regex.test(text)\<close> of a regular expression whose \<open>lastIndex\<close> is 0: is there a
  match starting at some position.\<close>

fun test :: "regex \<Rightarrow> jsstring \<Rightarrow> bool" where
  "test r [] = (rests r [] \<noteq> [])"
| "test r (c # cs) = (rests r (c # cs) \<noteq> [] \<or> test r cs)"

text \<open>
  \<open>(text.match(r) || []).length\<close> for \<open>r\<close> with the \<open>g\<close> flag: the number of
  successive matches, each search starting where the previous match ended (one code unit
  further after an empty match).
\<close>

function match_count :: "regex \<Rightarrow> jsstring \<Rightarrow> nat" where
  "match_count r [] = (if rests r [] \<noteq> [] then 1 else 0)"
| "match_count r (c # cs) =
     (case rests r (c # cs) of
        [] \<Rightarrow> match_count r cs
      | s' # _ \<Rightarrow> if length s' < length (c # cs) then 1 + match_count r s'
                 else 1 + match_count r cs)"
  by pat_completeness auto
termination
  by (relation "measure (\<lambda>(r, s). length s)") auto

text \<open>\<open>text.split(' ')\<close>: the pieces between the occurrences of the separator.\<close>

fun split :: "nat \<Rightarrow> jsstring \<Rightarrow> jsstring list" where
  "split d [] = [[]]"
| "split d (c # cs) =
     (if c = d then [] # split d cs
      else (case split d cs of [] \<Rightarrow> [[c]] | w # ws \<Rightarrow> (c # w) # ws))"

section \<open>Numbers\<close>

text \<open>
  The sub-scores are integers. The sentiment probability and every number computed from
  it are JavaScript numbers, binary64 values, modelled by the reals they denote. An
  arithmetic operation of the source returns the exact result rounded to the nearest
  binary64 value, a tie to the one with the even significand: \<open>binary64\<close> below, with 53
  significant bits and the smallest step \<open>2 ^ -1074\<close>. An overflow to \<open>Infinity\<close> is left
  out: with a probability of at most 1 no operation of the analysis comes near
  \<open>2 ^ 1024\<close>. The literals \<open>0.3\<close> and \<open>0.2\<close> of the source are the binary64 values
  nearest to them. \<open>Math.round\<close> is exact: the nearest integer, a half upwards. A
  division \<open>0 / 0\<close> yields \<open>NaN\<close>, which is \<open>None\<close> here, and every comparison with
  \<open>NaN\<close> is false.
\<close>

text \<open>The nearest integer, a tie to the even one.\<close>

definition round_even :: "real \<Rightarrow> int" where
  "round_even x =
     (let f = \<lfloor>x\<rfloor>; d = x - of_int f
      in if d < 1 / 2 then f else if 1 / 2 < d then f + 1
         else if even f then f else f + 1)"

text \<open>The number of binary digits of a positive integer.\<close>

function bitlen :: "int \<Rightarrow> nat" where
  "bitlen n = (if n \<le> 0 then 0 else Suc (bitlen (n div 2)))"
  by pat_completeness auto
termination
  by (relation "measure nat") auto

declare bitlen.simps [simp del]

text \<open>
  \<open>binary64 x\<close>: with \<open>m\<close> the magnitude of \<open>x\<close> in units of \<open>2 ^ -1074\<close>, the step
  between neighbouring binary64 values at \<open>m\<close> is \<open>2 ^ k\<close> units, where \<open>k\<close> is the
  number of digits of \<open>m\<close> beyond 53 (none for the subnormal values); \<open>m\<close> is rounded to a
  multiple of the step.
\<close>

definition binary64 :: "real \<Rightarrow> real" where
  "binary64 x =
     (let m = \<bar>x\<bar> * 2 ^ 1074;
          k = bitlen \<lfloor>m\<rfloor> - 53
      in sgn x * (of_int (round_even (m / 2 ^ k)) * 2 ^ k / 2 ^ 1074))"

definition js_add :: "real \<Rightarrow> real \<Rightarrow> real" where
  "js_add a b = binary64 (a + b)"

definition js_sub :: "real \<Rightarrow> real \<Rightarrow> real" where
  "js_sub a b = binary64 (a - b)"

definition js_mul :: "real \<Rightarrow> real \<Rightarrow> real" where
  "js_mul a b = binary64 (a * b)"

definition Math_round :: "real \<Rightarrow> int" where
  "Math_round x = \<lfloor>x + 1 / 2\<rfloor>"

definition js_greater :: "real option \<Rightarrow> real \<Rightarrow> bool" where
  "js_greater x y = (case x of None \<Rightarrow> False | Some v \<Rightarrow> v > y)"

section \<open>The sub-scores\<close>

text \<open>
  \<open>(text.match(/[A-Z]/g) || []).length / text.length\<close>. Of the empty text it is
  \<open>0 / 0\<close>, which is \<open>NaN\<close>. The source compares the ratio with the literal
  \<open>0.3\<close>; a quotient \<open>c / n\<close> of two lengths that is not \<open>3 / 10\<close> differs from it by
  \<open>1 / (10 * n)\<close> at least, far more than the rounding of binary64 for every length a
  string can have, so the exact comparison below decides as the source does.
\<close>

definition capsRatio :: "jsstring \<Rightarrow> real option" where
  "capsRatio text =
     (if length text = 0 then None
      else Some (real (match_count (Cls upperAZ) text) / real (length text)))"

definition punctuationRun :: regex where
  "punctuationRun = Seq (Cls bangOrQuestion) (Plus bangOrQuestion)"

definition clickbaitPatterns :: "regex list" where
  "clickbaitPatterns =
     [StrI ''you won't believe'', StrI ''shocking'', StrI ''amazing'', StrI ''incredible'',
      StrI ''unbelievable'', StrI ''must see'', StrI ''viral'']"

definition emotionalWords :: "regex list" where
  "emotionalWords =
     [StrI ''devastating'', StrI ''outrageous'', StrI ''scandal'', StrI ''explosive'',
      StrI ''bombshell'']"

definition analyzeLanguagePatterns :: "jsstring \<Rightarrow> int" where
  "analyzeLanguagePatterns text =
     (let score = 80;
          score = (if js_greater (capsRatio text) 0.3 then score - 20 else score);
          punctuationRatio = match_count punctuationRun text;
          score = (if punctuationRatio > 0 then score - 15 else score);
          clickbaitMatches = length (filter (\<lambda>pattern. test pattern text) clickbaitPatterns);
          score = score - int clickbaitMatches * 10;
          emotionalMatches = length (filter (\<lambda>pattern. test pattern text) emotionalWords);
          score = score - int emotionalMatches * 8
      in max 0 (min 100 score))"

definition hasNumbersPattern :: regex where
  "hasNumbersPattern =
     Alt (Seq (Plus digit) (Str ''%''))
    (Alt (Seq (Plus digit) (Seq (Str ''.'') (Seq (Plus digit) (Str ''%''))))
    (Alt (Seq (Str ''$'') (Plus digit))
         (Seq (Plus digit) (Seq (Str '' '')
            (Alt (StrI ''million'') (Alt (StrI ''billion'') (StrI ''thousand'')))))))"

definition hasSourcesPattern :: regex where
  "hasSourcesPattern =
     Alt (StrI ''according to'') (Alt (StrI ''source:'')
    (Alt (StrI ''study shows'') (StrI ''research indicates'')))"

definition absolutePatterns :: "regex list" where
  "absolutePatterns =
     [StrI ''always'', StrI ''never'', StrI ''everyone'', StrI ''nobody'',
      Seq (StrI ''all '') (Seq (Star dot) (StrI '' are'')),
      StrI ''completely'', StrI ''totally'']"

definition coverUp :: regex where
  "coverUp = Seq (StrI ''cover'') (Seq (Opt (Cls dot)) (StrI ''up''))"

definition conspiracyPatterns :: "regex list" where
  "conspiracyPatterns =
     [StrI ''they don't want you to know'', StrI ''hidden truth'', coverUp,
      StrI ''mainstream media'', StrI ''wake up'']"

definition analyzeFactualConsistency :: "jsstring \<Rightarrow> int" where
  "analyzeFactualConsistency text =
     (let score = 75;
          hasNumbers = test hasNumbersPattern text;
          hasSources = test hasSourcesPattern text;
          score = (if hasNumbers \<and> \<not> hasSources then score - 25 else score);
          absoluteMatches = length (filter (\<lambda>pattern. test pattern text) absolutePatterns);
          score = score - int absoluteMatches * 10;
          conspiracyMatches = length (filter (\<lambda>pattern. test pattern text) conspiracyPatterns);
          score = score - int conspiracyMatches * 15
      in max 0 (min 100 score))"

definition crediblePatterns :: "regex list" where
  "crediblePatterns =
     [Str ''.edu'', Str ''.gov'', StrI ''reuters'', StrI ''associated press'', StrI ''bbc'',
      Seq (StrI ''peer'') (Seq (Opt (Cls dot)) (StrI ''reviewed'')),
      StrI ''journal'', StrI ''university'']"

definition unreliablePatterns :: "regex list" where
  "unreliablePatterns =
     [StrI ''blog'', StrI ''facebook post'', StrI ''twitter'', StrI ''anonymous source'',
      StrI ''leaked'', StrI ''exclusive'']"

definition attributionPattern :: regex where
  "attributionPattern =
     Alt (StrI ''said'') (Alt (StrI ''according'') (Alt (StrI ''reported'') (StrI ''stated'')))"

definition analyzeSourceReliability :: "jsstring \<Rightarrow> int" where
  "analyzeSourceReliability text =
     (let score = 60;
          credibleMatches = length (filter (\<lambda>pattern. test pattern text) crediblePatterns);
          score = score + int credibleMatches * 15;
          unreliableMatches = length (filter (\<lambda>pattern. test pattern text) unreliablePatterns);
          score = score - int unreliableMatches * 10;
          score = (if \<not> test attributionPattern text then score - 20 else score)
      in max 0 (min 100 score))"

section \<open>Risk factors\<close>

definition clickbaitRisk :: regex where
  "clickbaitRisk = Alt (StrI ''you won't believe'') (Alt (StrI ''shocking'') (StrI ''amazing''))"

definition conspiracyRisk :: regex where
  "conspiracyRisk =
     Alt (StrI ''they don't want you to know'') (Alt (StrI ''hidden truth'') coverUp)"

text \<open>\<open>riskFactors.push(l)\<close> appends \<open>l\<close> to the list built so far.\<close>

definition identifyRiskFactors :: "jsstring \<Rightarrow> int \<Rightarrow> int \<Rightarrow> string list" where
  "identifyRiskFactors text languageScore factualScore =
     (let riskFactors = [];
          riskFactors = (if languageScore < 50
             then riskFactors @ [''Suspicious language patterns detected''] else riskFactors);
          riskFactors = (if factualScore < 50
             then riskFactors @ [''Lack of factual substantiation''] else riskFactors);
          riskFactors = (if test clickbaitRisk text
             then riskFactors @ [''Clickbait-style language''] else riskFactors);
          riskFactors = (if test conspiracyRisk text
             then riskFactors @ [''Conspiracy-style rhetoric''] else riskFactors);
          riskFactors = (if js_greater (capsRatio text) 0.3
             then riskFactors @ [''Excessive capitalization''] else riskFactors);
          riskFactors = (if test punctuationRun text
             then riskFactors @ [''Excessive punctuation''] else riskFactors);
          riskFactors = (if \<not> test attributionPattern text \<and> length text > 100
             then riskFactors @ [''No attribution to sources''] else riskFactors)
      in riskFactors)"

section \<open>The analysis result\<close>

datatype Classification = trustworthy | misleading | uncertain

record Factors =
  languagePattern :: int
  sentimentAnalysis :: int
  factualConsistency :: int
  sourceReliability :: int

record AnalysisResult =
  credibilityScore :: int
  classification :: Classification
  factors :: Factors
  riskFactors :: "string list"
  confidenceLevel :: int

section \<open>The fallback analysis\<close>

text \<open>
  The counts and the constants of the fallback formula are integers, which binary64 holds
  exactly. The one operation that rounds is \<open>wordCount / 10\<close>. Its error is below
  \<open>2 ^ -49\<close>, and only a quotient that is a multiple of \<open>1 / 2\<close>, which binary64 holds
  exactly, brings the sum to a half, to 40 or to 75, where \<open>Math.round\<close> and the
  classification decide. So the formula is written in exact arithmetic.
\<close>

definition getFallbackAnalysis :: "jsstring \<Rightarrow> AnalysisResult" where
  "getFallbackAnalysis text =
     (let wordCount = length (split 32 text);
          hasQuestionMarks = match_count (Str ''?'') text;
          hasExclamation = match_count (Str ''!'') text;
          credibilityScore = max 30 (min 85
             (70 - real hasQuestionMarks * 5 - real hasExclamation * 3
                + min (real wordCount / 10) 15));
          classification = (if credibilityScore \<ge> 75 then trustworthy
                            else if credibilityScore \<le> 40 then misleading
                            else uncertain)
      in \<lparr> credibilityScore = Math_round credibilityScore,
           classification = classification,
           factors = \<lparr> languagePattern = analyzeLanguagePatterns text,
                       sentimentAnalysis = 60,
                       factualConsistency = analyzeFactualConsistency text,
                       sourceReliability = analyzeSourceReliability text \<rparr>,
           riskFactors = identifyRiskFactors text 60 60,
           confidenceLevel = 75 \<rparr>)"

section \<open>The sentiment classifier and the normal analysis\<close>

datatype error = Thrown string

record sentiment =
  label :: string
  score :: real

text \<open>A loaded pipeline is a function from the text to the list of its results; the call
  may throw.\<close>

type_synonym classifier = "jsstring \<Rightarrow> error + sentiment list"

record models =
  sentimentAnalyzer :: "classifier option"
  textClassifier :: "classifier option"

text \<open>
  \<open>initializeModels\<close>: each handle that is still \<open>null\<close> is loaded with \<open>pipeline\<close>,
  the loader of the external library, which is a parameter here (task name and model name
  to a loaded pipeline, or an error). An error of either load leaves the try block; it is
  logged and swallowed.
\<close>

definition initializeModels ::
  "(string \<Rightarrow> string \<Rightarrow> error + classifier) \<Rightarrow> models \<Rightarrow> models" where
  "initializeModels pipeline st =
     (case (if sentimentAnalyzer st = None
            then (case pipeline ''sentiment-analysis''
                         ''Xenova/distilbert-base-uncased-finetuned-sst-2-english'' of
                    Inl e \<Rightarrow> Inl e
                  | Inr m \<Rightarrow> Inr (st\<lparr>sentimentAnalyzer := Some m\<rparr>))
            else Inr st) of
        Inl e \<Rightarrow> st
      | Inr st1 \<Rightarrow>
          (if textClassifier st1 = None
           then (case pipeline ''text-classification''
                        ''Xenova/distilbert-base-uncased-finetuned-sst-2-english'' of
                   Inl e \<Rightarrow> st1
                 | Inr m \<Rightarrow> st1\<lparr>textClassifier := Some m\<rparr>)
           else st1))"

text \<open>\<open>[{ label: 'NEUTRAL', score: 0.5 }]\<close>, the result that stands in for the classifier
  when its handle is \<open>null\<close>.\<close>

definition neutralSentiment :: "sentiment list" where
  "neutralSentiment = [\<lparr> label = ''NEUTRAL'', score = 0.5 \<rparr>]"

text \<open>\<open>this.sentimentAnalyzer ? await this.sentimentAnalyzer(text)
  : [{ label: 'NEUTRAL', score: 0.5 }]\<close>\<close>

definition sentimentCall :: "models \<Rightarrow> jsstring \<Rightarrow> error + sentiment list" where
  "sentimentCall st text =
     (case sentimentAnalyzer st of
        Some analyzer \<Rightarrow> analyzer text
      | None \<Rightarrow> Inr neutralSentiment)"

text \<open>\<open>sentimentResult[0]?.score || 0.5\<close>: the default 0.5 stands in for a missing first
  result and for every falsy score, the score 0 among them.\<close>

definition sentimentScoreOf :: "sentiment list \<Rightarrow> real" where
  "sentimentScoreOf sentimentResult =
     (case sentimentResult of
        [] \<Rightarrow> 0.5
      | r # _ \<Rightarrow> if score r = 0 then 0.5 else score r)"

text \<open>\<open>sentimentResult[0]?.label === 'NEGATIVE'\<close>\<close>

definition isNegativeSentimentOf :: "sentiment list \<Rightarrow> bool" where
  "isNegativeSentimentOf sentimentResult =
     (case sentimentResult of [] \<Rightarrow> False | r # _ \<Rightarrow> label r = ''NEGATIVE'')"

text \<open>
  The try block of \<open>analyzeText\<close> from the point where the sentiment result is there. The
  weighted sum is evaluated as JavaScript does, from left to right, each product and each
  sum rounded to binary64. The confidence level is computed on integers, exactly.
\<close>

definition analyzeWithSentiment :: "jsstring \<Rightarrow> sentiment list \<Rightarrow> AnalysisResult" where
  "analyzeWithSentiment text sentimentResult =
     (let languageScore = analyzeLanguagePatterns text;
          factualScore = analyzeFactualConsistency text;
          sourceScore = analyzeSourceReliability text;
          sentimentScore = sentimentScoreOf sentimentResult;
          isNegativeSentiment = isNegativeSentimentOf sentimentResult;
          credibilityScore = Math_round
             (js_add (js_add (js_add
                (js_mul (real_of_int languageScore) (binary64 0.3))
                (js_mul (if isNegativeSentiment then js_mul (js_sub 1 sentimentScore) 100
                         else js_mul sentimentScore 100) (binary64 0.2)))
                (js_mul (real_of_int factualScore) (binary64 0.3)))
                (js_mul (real_of_int sourceScore) (binary64 0.2)));
          classification = (if credibilityScore \<ge> 75 then trustworthy
                            else if credibilityScore \<le> 40 then misleading
                            else uncertain);
          riskFactors = identifyRiskFactors text languageScore factualScore;
          confidenceLevel = Math_round (real_of_int \<bar>credibilityScore - 50\<bar> * 2)
      in \<lparr> credibilityScore = credibilityScore,
           classification = classification,
           factors = \<lparr> languagePattern = languageScore,
                       sentimentAnalysis = Math_round (js_mul sentimentScore 100),
                       factualConsistency = factualScore,
                       sourceReliability = sourceScore \<rparr>,
           riskFactors = riskFactors,
           confidenceLevel = min confidenceLevel 95 \<rparr>)"

text \<open>
  \<open>analyzeText\<close>: the models are initialised, the sentiment classifier is called, and an
  error thrown by the call is answered with the fallback analysis. The result comes with
  the state of the model handles after the call.
\<close>

definition analyzeText ::
  "(string \<Rightarrow> string \<Rightarrow> error + classifier) \<Rightarrow> models \<Rightarrow> jsstring
     \<Rightarrow> models \<times> AnalysisResult" where
  "analyzeText pipeline st text =
     (let st' = initializeModels pipeline st
      in (st', case sentimentCall st' text of
                 Inl e \<Rightarrow> getFallbackAnalysis text
               | Inr sentimentResult \<Rightarrow> analyzeWithSentiment text sentimentResult))"

section \<open>The formulas of the specification\<close>

text \<open>
  The counts of the fallback formula as the specification names them: the question marks,
  the exclamation marks, and the words, which are the pieces between single spaces.
\<close>

definition spec_questionMarks :: "jsstring \<Rightarrow> nat" where
  "spec_questionMarks text = count_list text 63"

definition spec_exclamations :: "jsstring \<Rightarrow> nat" where
  "spec_exclamations text = count_list text 33"

definition spec_wordCount :: "jsstring \<Rightarrow> nat" where
  "spec_wordCount text = count_list text 32 + 1"

definition spec_clamp :: "real \<Rightarrow> real \<Rightarrow> real \<Rightarrow> real" where
  "spec_clamp x lo hi = max lo (min hi x)"

text \<open>
  The checks behind the risk factors, in words that do not use the regular expressions of
  the source. A phrase occurs in the text when, at some position, the text continues with
  the phrase, letters compared without regard to case.
\<close>

definition spec_startsWith :: "string \<Rightarrow> jsstring \<Rightarrow> bool" where
  "spec_startsWith p s = (map canonicalize (take (length p) s) = map canonicalize (js p))"

definition spec_occurs :: "string \<Rightarrow> jsstring \<Rightarrow> bool" where
  "spec_occurs p text = list_ex (\<lambda>i. spec_startsWith p (drop i text)) [0..<Suc (length text)]"

text \<open>\<open>cover\<close>, then at most one code unit that is not a line terminator, then \<open>up\<close>.\<close>

definition spec_coverUp :: "jsstring \<Rightarrow> bool" where
  "spec_coverUp text =
     list_ex (\<lambda>i. spec_startsWith ''cover'' (drop i text)
                \<and> (spec_startsWith ''up'' (drop (i + 5) text)
                   \<or> i + 5 < length text \<and> dot (text ! (i + 5))
                     \<and> spec_startsWith ''up'' (drop (i + 6) text)))
       [0..<Suc (length text)]"

text \<open>More than three in ten code units are capital letters \<open>A\<close> to \<open>Z\<close>.\<close>

definition spec_capitalized :: "jsstring \<Rightarrow> bool" where
  "spec_capitalized text =
     (text \<noteq> [] \<and> real (length (filter upperAZ text)) / real (length text) > 0.3)"

text \<open>Two neighbouring code units are both \<open>!\<close> or \<open>?\<close>.\<close>

definition spec_punctuated :: "jsstring \<Rightarrow> bool" where
  "spec_punctuated text =
     list_ex (\<lambda>i. bangOrQuestion (text ! i) \<and> bangOrQuestion (text ! Suc i))
       [0..<length text - 1]"

definition spec_attributed :: "jsstring \<Rightarrow> bool" where
  "spec_attributed text =
     (spec_occurs ''said'' text \<or> spec_occurs ''according'' text
      \<or> spec_occurs ''reported'' text \<or> spec_occurs ''stated'' text)"

text \<open>
  The checks, each with its label, in their order. The clickbait check looks for three of
  the seven clickbait phrases of the language score, the conspiracy check for three of the
  five conspiracy patterns of the factual score.
\<close>

definition spec_riskChecks :: "jsstring \<Rightarrow> int \<Rightarrow> int \<Rightarrow> (bool \<times> string) list" where
  "spec_riskChecks text languageScore factualScore =
     [(languageScore < 50, ''Suspicious language patterns detected''),
      (factualScore < 50, ''Lack of factual substantiation''),
      (spec_occurs ''you won't believe'' text \<or> spec_occurs ''shocking'' text
         \<or> spec_occurs ''amazing'' text, ''Clickbait-style language''),
      (spec_occurs ''they don't want you to know'' text \<or> spec_occurs ''hidden truth'' text
         \<or> spec_coverUp text, ''Conspiracy-style rhetoric''),
      (spec_capitalized text, ''Excessive capitalization''),
      (spec_punctuated text, ''Excessive punctuation''),
      (\<not> spec_attributed text \<and> length text > 100, ''No attribution to sources'')]"

section \<open>Stub classifiers and example texts\<close>

text \<open>
  The inputs of the concrete instances below: a classifier that answers every text with one
  fixed label and probability, a classifier whose call throws, a loader that fails, the
  state with both handles loaded and the state with both handles \<open>null\<close>.
\<close>

definition stubClassifier :: "string \<Rightarrow> real \<Rightarrow> classifier" where
  "stubClassifier l p text = Inr [\<lparr> label = l, score = p \<rparr>]"

definition throwingClassifier :: classifier where
  "throwingClassifier text = Inl (Thrown ''inference failed'')"

definition failingPipeline :: "string \<Rightarrow> string \<Rightarrow> error + classifier" where
  "failingPipeline task model = Inl (Thrown ''model could not be loaded'')"

definition loaded :: "classifier \<Rightarrow> models" where
  "loaded c = \<lparr> sentimentAnalyzer = Some c, textClassifier = Some c \<rparr>"

definition unloaded :: models where
  "unloaded = \<lparr> sentimentAnalyzer = None, textClassifier = None \<rparr>"

text \<open>The example text of the specification, and a text of 45 words separated by single
  spaces.\<close>

definition shockingExample :: jsstring where
  "shockingExample =
     js ''SHOCKING!! You won't believe this amazing secret they don't want you to know!!!''"

text \<open>A text with one clickbait phrase of the language score, \<open>viral\<close>.\<close>

definition viralStory :: jsstring where
  "viralStory = js ''a viral story''"

definition fortyFiveWords :: jsstring where
  "fortyFiveWords =
     js ''a a a a a a a a a a a a a a a a a a a a a a a a a a a a a a a a a a a a a a a a a a a a a''"

section \<open>Counting matches and splitting\<close>

lemma match_count_char:
  "match_count (Str [p]) text = count_list text (of_char p)"
  by (induction "text") auto

lemma match_count_question: "match_count (Str ''?'') text = count_list text 63"
  unfolding match_count_char by simp

lemma match_count_bang: "match_count (Str ''!'') text = count_list text 33"
  unfolding match_count_char by simp

lemma length_split: "length (split d text) = count_list text d + 1"
  by (induction "text") (auto split: list.splits)

section \<open>Rounding to binary64\<close>

lemma bitlen_le: "bitlen n \<le> b \<longleftrightarrow> n < 2 ^ b"
proof (induction n arbitrary: b rule: bitlen.induct)
  case (1 n)
  show ?case
  proof (cases "n \<le> 0")
    case True
    have "(0::int) < 2 ^ b" by simp
    with True have "n < 2 ^ b" by linarith
    with True show ?thesis by (simp add: bitlen.simps [of n])
  next
    case False
    show ?thesis
    proof (cases b)
      case 0
      with False show ?thesis by (simp add: bitlen.simps [of n])
    next
      case (Suc c)
      have "bitlen n \<le> Suc c \<longleftrightarrow> bitlen (n div 2) \<le> c"
        using False by (simp add: bitlen.simps [of n])
      also have "\<dots> \<longleftrightarrow> n div 2 < 2 ^ c" using 1 [OF False] .
      also have "\<dots> \<longleftrightarrow> n < 2 ^ Suc c" by auto
      finally show ?thesis using Suc by simp
    qed
  qed
qed

lemma bitlen_mono: "m \<le> n \<Longrightarrow> bitlen m \<le> bitlen n"
  using bitlen_le [of n "bitlen n"] bitlen_le [of m "bitlen n"] by simp

lemma bitlen_bounds: "n < 2 ^ bitlen n" "0 < bitlen n \<Longrightarrow> 2 ^ (bitlen n - 1) \<le> n"
proof -
  show "n < 2 ^ bitlen n" using bitlen_le [of n "bitlen n"] by simp
  assume "0 < bitlen n"
  then have "\<not> bitlen n \<le> bitlen n - 1" by simp
  then show "2 ^ (bitlen n - 1) \<le> n" unfolding bitlen_le by simp
qed

lemma bitlen_eq: "2 ^ b \<le> n \<Longrightarrow> n < 2 ^ Suc b \<Longrightarrow> bitlen n = Suc b"
  using bitlen_le [of n "Suc b"] bitlen_le [of n b] by simp

lemma round_even_of_int: "round_even (of_int n) = n"
  by (simp add: round_even_def)

lemma round_even_range: "\<lfloor>x\<rfloor> \<le> round_even x" "round_even x \<le> \<lfloor>x\<rfloor> + 1"
  by (simp_all add: round_even_def Let_def)

lemma round_even_mono: "x \<le> y \<Longrightarrow> round_even x \<le> round_even y"
proof -
  assume xy: "x \<le> y"
  then have f: "\<lfloor>x\<rfloor> \<le> \<lfloor>y\<rfloor>" by (rule floor_mono)
  show ?thesis
  proof (cases "\<lfloor>x\<rfloor> = \<lfloor>y\<rfloor>")
    case True
    with xy show ?thesis by (auto simp: round_even_def Let_def)
  next
    case False
    with f have "\<lfloor>x\<rfloor> + 1 \<le> \<lfloor>y\<rfloor>" by simp
    with round_even_range(2) [of x] round_even_range(1) [of y] show ?thesis by linarith
  qed
qed

lemma round_even_le_int: "x \<le> of_int n \<Longrightarrow> round_even x \<le> n"
  using round_even_mono [of x "of_int n"] by (simp add: round_even_of_int)

lemma round_even_ge_int: "of_int n \<le> x \<Longrightarrow> n \<le> round_even x"
  using round_even_mono [of "of_int n" x] by (simp add: round_even_of_int)


lemma pow_div: "k \<le> b \<Longrightarrow> (2::real) ^ b / 2 ^ k = 2 ^ (b - k)"
  by (simp add: power_diff)

lemma scaled_mono:
  fixes m m' :: real
  assumes "0 \<le> m" "m \<le> m'"
  shows "of_int (round_even (m / 2 ^ (bitlen \<lfloor>m\<rfloor> - 53)))
           * (2::real) ^ (bitlen \<lfloor>m\<rfloor> - 53)
       \<le> of_int (round_even (m' / 2 ^ (bitlen \<lfloor>m'\<rfloor> - 53)))
           * 2 ^ (bitlen \<lfloor>m'\<rfloor> - 53)"
proof -
  define n n' where "n = \<lfloor>m\<rfloor>" and "n' = \<lfloor>m'\<rfloor>"
  define b b' where "b = bitlen n" and "b' = bitlen n'"
  define k k' where "k = b - 53" and "k' = b' - 53"
  have nn: "n \<le> n'" unfolding n_def n'_def using assms by (simp add: floor_mono)
  then have bb: "b \<le> b'" unfolding b_def b'_def by (rule bitlen_mono)
  then have kk: "k \<le> k'" unfolding k_def k'_def by simp
  show ?thesis
    unfolding n_def [symmetric] n'_def [symmetric] b_def [symmetric] b'_def [symmetric]
      k_def [symmetric] k'_def [symmetric]
  proof (cases "k = k'")
    case True
    have "m / 2 ^ k \<le> m' / 2 ^ k" using assms by (simp add: divide_right_mono)
    then have "round_even (m / 2 ^ k) \<le> round_even (m' / 2 ^ k)" by (rule round_even_mono)
    then show "of_int (round_even (m / 2 ^ k)) * (2::real) ^ k
                 \<le> of_int (round_even (m' / 2 ^ k')) * 2 ^ k'"
      unfolding True [symmetric] by (simp add: mult_right_mono)
  next
    case False
    with kk have lt: "k < k'" by simp
    then have b'53: "53 < b'" and bb': "b < b'" unfolding k_def k'_def by simp_all
    have kb: "k \<le> b" unfolding k_def by simp
    have kb': "k' \<le> b' - 1" unfolding k'_def using b'53 by simp
    text \<open>the smaller one stays below \<open>2 ^ b\<close>\<close>
    have "n < 2 ^ b" unfolding b_def by (rule bitlen_bounds)
    then have "m < 2 ^ b" unfolding n_def by (simp add: floor_less_iff)
    then have "m / 2 ^ k \<le> 2 ^ b / 2 ^ k" by (simp add: divide_right_mono)
    also have "\<dots> = of_int (2 ^ (b - k))" using kb by (simp add: pow_div)
    finally have r0: "round_even (m / 2 ^ k) \<le> 2 ^ (b - k)" by (rule round_even_le_int)
    have "of_int (round_even (m / 2 ^ k)) * (2::real) ^ k \<le> of_int (2 ^ (b - k)) * 2 ^ k"
      by (rule mult_right_mono) (use r0 in \<open>simp_all only: of_int_le_iff zero_le_power zero_le_numeral\<close>)
    also have "\<dots> = 2 ^ b" using kb by (simp add: power_add [symmetric])
    finally have up: "of_int (round_even (m / 2 ^ k)) * (2::real) ^ k \<le> 2 ^ b" .
    text \<open>the larger one stays above \<open>2 ^ (b' - 1)\<close>\<close>
    have "2 ^ (b' - 1) \<le> n'" unfolding b'_def
      by (rule bitlen_bounds) (use b'53 in \<open>simp add: b'_def\<close>)
    then have "(2::real) ^ (b' - 1) \<le> m'" unfolding n'_def by (simp add: le_floor_iff)
    then have "(2::real) ^ (b' - 1) / 2 ^ k' \<le> m' / 2 ^ k'" by (simp add: divide_right_mono)
    moreover have "(2::real) ^ (b' - 1) / 2 ^ k' = of_int (2 ^ (b' - 1 - k'))"
      using kb' by (simp add: pow_div)
    ultimately have r: "2 ^ (b' - 1 - k') \<le> round_even (m' / 2 ^ k')"
      using round_even_ge_int by metis
    have "(2::real) ^ (b' - 1) = of_int (2 ^ (b' - 1 - k')) * 2 ^ k'"
      using kb' by (simp add: power_add [symmetric])
    also have "\<dots> \<le> of_int (round_even (m' / 2 ^ k')) * 2 ^ k'"
      by (rule mult_right_mono) (use r in \<open>simp_all only: of_int_le_iff zero_le_power zero_le_numeral\<close>)
    finally have lo: "(2::real) ^ (b' - 1) \<le> of_int (round_even (m' / 2 ^ k')) * 2 ^ k'" .
    have "(2::real) ^ b \<le> 2 ^ (b' - 1)" using bb' by (simp add: power_increasing)
    with up lo show "of_int (round_even (m / 2 ^ k)) * (2::real) ^ k
                 \<le> of_int (round_even (m' / 2 ^ k')) * 2 ^ k'"
      by linarith
  qed
qed

lemma binary64_scaled:
  "S = 2 ^ 1074 \<Longrightarrow>
   binary64 x = sgn x * (of_int (round_even (\<bar>x\<bar> * S / 2 ^ (bitlen \<lfloor>\<bar>x\<bar> * S\<rfloor> - 53)))
                  * 2 ^ (bitlen \<lfloor>\<bar>x\<bar> * S\<rfloor> - 53) / S)"
  by (simp only: binary64_def Let_def)

lemma binary64_zero: "binary64 0 = 0"
  by (simp only: binary64_def Let_def sgn_zero mult_zero_left)

lemma binary64_nonneg:
  assumes "0 \<le> x"
  shows "0 \<le> binary64 x"
proof -
  define S :: real where "S = 2 ^ 1074"
  have S: "0 < S" unfolding S_def by (rule zero_less_power) simp
  let ?k = "bitlen \<lfloor>\<bar>x\<bar> * S\<rfloor> - 53"
  have "0 \<le> \<bar>x\<bar> * S / 2 ^ ?k" using S by simp
  then have "0 \<le> round_even (\<bar>x\<bar> * S / 2 ^ ?k)"
    using round_even_ge_int [of 0] by simp
  then have "0 \<le> of_int (round_even (\<bar>x\<bar> * S / 2 ^ ?k)) * 2 ^ ?k / S"
    using S by simp
  then show ?thesis
    unfolding binary64_scaled [OF S_def] using assms by (simp add: sgn_real_def)
qed

lemma binary64_mono:
  assumes "0 \<le> x" "x \<le> y"
  shows "binary64 x \<le> binary64 y"
proof (cases "x = 0")
  case True
  then show ?thesis using assms binary64_nonneg [of y] by (simp add: binary64_zero)
next
  case False
  then have x: "0 < x" and y: "0 < y" using assms by simp_all
  define S :: real where "S = 2 ^ 1074"
  have S: "0 < S" unfolding S_def by (rule zero_less_power) simp
  have "0 \<le> \<bar>x\<bar> * S" "\<bar>x\<bar> * S \<le> \<bar>y\<bar> * S" using assms S by simp_all
  from scaled_mono [OF this] show ?thesis
    unfolding binary64_scaled [OF S_def] using x y S by (simp add: divide_right_mono)
qed

lemma binary64_eval:
  assumes "2 powi e \<le> x" "x < 2 powi (e + 1)" "- 1022 \<le> e"
  shows "binary64 x = of_int (round_even (x / 2 powi (e - 52))) * 2 powi (e - 52)"
proof -
  have "(0::real) < 2 powi e" by (rule zero_less_power_int) simp
  then have x: "0 < x" using assms(1) by linarith
  define S :: real where "S = 2 ^ 1074"
  have S: "0 < S" unfolding S_def by (rule zero_less_power) simp
  have Sp: "S = 2 powi 1074" unfolding S_def by (simp only: power_int_numeral)
  define c where "c = nat (e + 1074)"
  have c: "int c = e + 1074" unfolding c_def using assms(3) by simp
  have pw: "(2::real) powi (int n - 1074) = 2 ^ n / S" for n
  proof -
    have "(2::real) powi (int n - 1074) = 2 powi int n / 2 powi 1074"
      by (rule power_int_diff) simp
    then show ?thesis unfolding Sp by (simp only: power_int_of_nat)
  qed
  have e0: "e = int c - 1074" and e1: "e + 1 = int (Suc c) - 1074" using c by simp_all
  have m: "\<bar>x\<bar> * S = x * S" using x by simp
  have lo: "(2::real) ^ c \<le> x * S"
    using assms(1) S unfolding e0 pw by (simp add: field_simps)
  have hi: "x * S < 2 ^ Suc c"
    using assms(2) S unfolding e1 pw by (simp add: field_simps)
  have n1: "(2::int) ^ c \<le> \<lfloor>x * S\<rfloor>" using lo by (simp add: le_floor_iff)
  have n2: "\<lfloor>x * S\<rfloor> < 2 ^ Suc c" using hi by (simp add: floor_less_iff)
  have b: "bitlen \<lfloor>x * S\<rfloor> = Suc c" using n1 n2 by (rule bitlen_eq)
  have c52: "52 \<le> c" using c assms(3) by simp
  then have k: "Suc c - 53 = c - 52" by simp
  have "e - 52 = int (c - 52) - 1074" using c52 c by simp
  then have q: "(2::real) powi (e - 52) = 2 ^ (c - 52) / S" by (simp only: pw)
  have d: "x * S / 2 ^ (c - 52) = x / (2 ^ (c - 52) / S)" using S by simp
  show ?thesis
    unfolding binary64_scaled [OF S_def] m b k q d using x S by (simp add: sgn_real_def)
qed

text \<open>The operations on numbers that are not negative keep bounds that binary64 holds.\<close>

lemma js_mul_bound:
  assumes "0 \<le> a" "0 \<le> b" "a \<le> m" "b \<le> n" "js_mul m n = v"
  shows "0 \<le> js_mul a b" "js_mul a b \<le> v"
proof -
  have "a * b \<le> m * n" using assms by (simp add: mult_mono)
  moreover have "0 \<le> a * b" using assms by simp
  ultimately show "0 \<le> js_mul a b" "js_mul a b \<le> v"
    unfolding assms(5) [symmetric] js_mul_def by (simp_all only: binary64_nonneg binary64_mono)
qed

lemma js_add_bound:
  assumes "0 \<le> a" "0 \<le> b" "a \<le> m" "b \<le> n" "js_add m n = v"
  shows "0 \<le> js_add a b" "js_add a b \<le> v"
proof -
  have "a + b \<le> m + n" "0 \<le> a + b" using assms by simp_all
  then show "0 \<le> js_add a b" "js_add a b \<le> v"
    unfolding assms(5) [symmetric] js_add_def by (simp_all only: binary64_nonneg binary64_mono)
qed

lemma js_sub_bound:
  assumes "b \<le> a" "a - b \<le> m" "binary64 m = v"
  shows "0 \<le> js_sub a b" "js_sub a b \<le> v"
proof -
  have "0 \<le> a - b" using assms by simp
  then show "0 \<le> js_sub a b" "js_sub a b \<le> v"
    unfolding assms(3) [symmetric] js_sub_def using assms(2)
    by (simp_all only: binary64_nonneg binary64_mono)
qed

text \<open>The two weights and the values that bound the weighted sum.\<close>

lemma binary64_03: "binary64 0.3 = 5404319552844595 / 18014398509481984"
  by (subst binary64_eval [where e = "-2"]) (simp_all add: round_even_def)

lemma binary64_fifth: "binary64 (1 / 5) = 3602879701896397 / 18014398509481984"
  by (subst binary64_eval [where e = "-3"]) (simp_all add: round_even_def)

lemma binary64_02: "binary64 0.2 = 3602879701896397 / 18014398509481984"
  using binary64_fifth by simp

lemma binary64_1: "binary64 1 = 1"
  by (subst binary64_eval [where e = "0"]) (simp_all add: round_even_def)

lemma factor_max: "js_mul 1 100 = 100"
  unfolding js_mul_def by (subst binary64_eval [where e = "6"]) (simp_all add: round_even_def)

lemma weight_03_max: "js_mul 100 (5404319552844595 / 18014398509481984) = 30"
  unfolding js_mul_def by (subst binary64_eval [where e = "4"]) (simp_all add: round_even_def)

lemma weight_02_max: "js_mul 100 (3602879701896397 / 18014398509481984) = 20"
  unfolding js_mul_def by (subst binary64_eval [where e = "4"]) (simp_all add: round_even_def)

lemma sum_max_a: "js_add 30 20 = 50"
  unfolding js_add_def by (subst binary64_eval [where e = "5"]) (simp_all add: round_even_def)

lemma sum_max_b: "js_add 50 30 = 80"
  unfolding js_add_def by (subst binary64_eval [where e = "6"]) (simp_all add: round_even_def)

lemma sum_max_c: "js_add 80 20 = 100"
  unfolding js_add_def by (subst binary64_eval [where e = "6"]) (simp_all add: round_even_def)

lemma Math_round_mono: "x \<le> y \<Longrightarrow> Math_round x \<le> Math_round y"
  unfolding Math_round_def by (rule floor_mono) simp

lemma Math_round_of_int: "Math_round (of_int n) = n"
  unfolding Math_round_def by linarith

section \<open>Rounding and the ranges of the sub-scores\<close>

lemma Math_round_double: "Math_round (real_of_int n * 2) = n * 2"
  unfolding Math_round_def by linarith

lemma clamp_score: "0 \<le> max 0 (min 100 (x::int)) \<and> max 0 (min 100 x) \<le> 100"
  by simp

lemma language_bounds:
  "0 \<le> analyzeLanguagePatterns text \<and> analyzeLanguagePatterns text \<le> 100"
  unfolding analyzeLanguagePatterns_def Let_def by (rule clamp_score)

lemma factual_bounds:
  "0 \<le> analyzeFactualConsistency text \<and> analyzeFactualConsistency text \<le> 100"
  unfolding analyzeFactualConsistency_def Let_def by (rule clamp_score)

lemma source_bounds:
  "0 \<le> analyzeSourceReliability text \<and> analyzeSourceReliability text \<le> 100"
  unfolding analyzeSourceReliability_def Let_def by (rule clamp_score)

lemma sentimentScoreOf_range:
  assumes "\<forall>r rs. sr = r # rs \<longrightarrow> 0 \<le> score r \<and> score r \<le> 1"
  shows "0 \<le> sentimentScoreOf sr \<and> sentimentScoreOf sr \<le> 1"
  using assms by (cases sr) (auto simp: sentimentScoreOf_def)

lemma adjusted_range:
  assumes "0 \<le> p" "p \<le> 1"
  shows "0 \<le> (if neg then js_mul (js_sub 1 p) 100 else js_mul p 100)"
    and "(if neg then js_mul (js_sub 1 p) 100 else js_mul p 100) \<le> 100"
proof -
  have "1 - p \<le> 1" using assms by simp
  note d = js_sub_bound [OF assms(2) this binary64_1]
  have h: "(0::real) \<le> 100" "(100::real) \<le> 100" by simp_all
  note n = js_mul_bound [OF d(1) h(1) d(2) h(2) factor_max]
  note q = js_mul_bound [OF assms(1) h(1) assms(2) h(2) factor_max]
  show "0 \<le> (if neg then js_mul (js_sub 1 p) 100 else js_mul p 100)"
    using n q by simp
  show "(if neg then js_mul (js_sub 1 p) 100 else js_mul p 100) \<le> 100"
    using n q by simp
qed

lemma weighted_range:
  fixes l f s :: int and a :: real
  assumes "0 \<le> l" "l \<le> 100" "0 \<le> f" "f \<le> 100" "0 \<le> s" "s \<le> 100" "0 \<le> a" "a \<le> 100"
  shows "0 \<le> Math_round (js_add (js_add (js_add
             (js_mul (real_of_int l) (binary64 0.3)) (js_mul a (binary64 0.2)))
             (js_mul (real_of_int f) (binary64 0.3))) (js_mul (real_of_int s) (binary64 0.2)))"
    and "Math_round (js_add (js_add (js_add
             (js_mul (real_of_int l) (binary64 0.3)) (js_mul a (binary64 0.2)))
             (js_mul (real_of_int f) (binary64 0.3))) (js_mul (real_of_int s) (binary64 0.2)))
           \<le> 100"
proof -
  let ?c3 = "5404319552844595 / 18014398509481984 :: real"
  let ?c2 = "3602879701896397 / 18014398509481984 :: real"
  have c3: "0 \<le> ?c3" "?c3 \<le> ?c3" and c2: "0 \<le> ?c2" "?c2 \<le> ?c2" by simp_all
  have rl: "0 \<le> real_of_int l" "real_of_int l \<le> 100"
   and rf: "0 \<le> real_of_int f" "real_of_int f \<le> 100"
   and rs: "0 \<le> real_of_int s" "real_of_int s \<le> 100"
    using assms by simp_all
  note t1 = js_mul_bound [OF rl(1) c3(1) rl(2) c3(2) weight_03_max]
  note t2 = js_mul_bound [OF assms(7) c2(1) assms(8) c2(2) weight_02_max]
  note t3 = js_mul_bound [OF rf(1) c3(1) rf(2) c3(2) weight_03_max]
  note t4 = js_mul_bound [OF rs(1) c2(1) rs(2) c2(2) weight_02_max]
  note s1 = js_add_bound [OF t1(1) t2(1) t1(2) t2(2) sum_max_a]
  note s2 = js_add_bound [OF s1(1) t3(1) s1(2) t3(2) sum_max_b]
  note s3 = js_add_bound [OF s2(1) t4(1) s2(2) t4(2) sum_max_c]
  have "Math_round 0 = 0" "Math_round 100 = 100"
    using Math_round_of_int [of 0] Math_round_of_int [of 100] by simp_all
  then show "0 \<le> Math_round (js_add (js_add (js_add
             (js_mul (real_of_int l) (binary64 0.3)) (js_mul a (binary64 0.2)))
             (js_mul (real_of_int f) (binary64 0.3))) (js_mul (real_of_int s) (binary64 0.2)))"
    and "Math_round (js_add (js_add (js_add
             (js_mul (real_of_int l) (binary64 0.3)) (js_mul a (binary64 0.2)))
             (js_mul (real_of_int f) (binary64 0.3))) (js_mul (real_of_int s) (binary64 0.2)))
           \<le> 100"
    unfolding binary64_03 binary64_02
    using Math_round_mono [OF s3(1)] Math_round_mono [OF s3(2)] by simp_all
qed

section \<open>The fields of the two analyses\<close>

lemma fallback_raw:
  "max 30 (min 85 (70 - real (match_count (Str ''?'') text) * 5
                      - real (match_count (Str ''!'') text) * 3
                      + min (real (length (split 32 text)) / 10) 15))
   = spec_clamp (70 - 5 * real (spec_questionMarks text) - 3 * real (spec_exclamations text)
              + min (real (spec_wordCount text) / 10) 15) 30 85"
  by (simp add: spec_clamp_def spec_questionMarks_def spec_exclamations_def spec_wordCount_def
      match_count_question match_count_bang length_split algebra_simps)

lemma fallback_fields:
  "credibilityScore (getFallbackAnalysis text) =
     Math_round (spec_clamp (70 - 5 * real (spec_questionMarks text) - 3 * real (spec_exclamations text)
                          + min (real (spec_wordCount text) / 10) 15) 30 85)"
  "factors (getFallbackAnalysis text) =
     \<lparr> languagePattern = analyzeLanguagePatterns text, sentimentAnalysis = 60,
       factualConsistency = analyzeFactualConsistency text,
       sourceReliability = analyzeSourceReliability text \<rparr>"
  "riskFactors (getFallbackAnalysis text) = identifyRiskFactors text 60 60"
  "confidenceLevel (getFallbackAnalysis text) = 75"
  "classification (getFallbackAnalysis text) =
     (if spec_clamp (70 - 5 * real (spec_questionMarks text) - 3 * real (spec_exclamations text)
                  + min (real (spec_wordCount text) / 10) 15) 30 85 \<ge> 75 then trustworthy
      else if spec_clamp (70 - 5 * real (spec_questionMarks text) - 3 * real (spec_exclamations text)
                  + min (real (spec_wordCount text) / 10) 15) 30 85 \<le> 40 then misleading
      else uncertain)"
  unfolding getFallbackAnalysis_def Let_def fallback_raw
  by (simp_all only: AnalysisResult.select_convs)

lemma normal_fields:
  "credibilityScore (analyzeWithSentiment text sr) =
     Math_round (js_add (js_add (js_add
        (js_mul (real_of_int (analyzeLanguagePatterns text)) (binary64 0.3))
        (js_mul (if isNegativeSentimentOf sr then js_mul (js_sub 1 (sentimentScoreOf sr)) 100
                 else js_mul (sentimentScoreOf sr) 100) (binary64 0.2)))
        (js_mul (real_of_int (analyzeFactualConsistency text)) (binary64 0.3)))
        (js_mul (real_of_int (analyzeSourceReliability text)) (binary64 0.2)))"
  "factors (analyzeWithSentiment text sr) =
     \<lparr> languagePattern = analyzeLanguagePatterns text,
       sentimentAnalysis = Math_round (js_mul (sentimentScoreOf sr) 100),
       factualConsistency = analyzeFactualConsistency text,
       sourceReliability = analyzeSourceReliability text \<rparr>"
  "riskFactors (analyzeWithSentiment text sr) =
     identifyRiskFactors text (analyzeLanguagePatterns text) (analyzeFactualConsistency text)"
  "confidenceLevel (analyzeWithSentiment text sr) =
     min (\<bar>credibilityScore (analyzeWithSentiment text sr) - 50\<bar> * 2) 95"
  "classification (analyzeWithSentiment text sr) =
     (if credibilityScore (analyzeWithSentiment text sr) \<ge> 75 then trustworthy
      else if credibilityScore (analyzeWithSentiment text sr) \<le> 40 then misleading
      else uncertain)"
  unfolding analyzeWithSentiment_def Let_def
  by (simp_all only: AnalysisResult.select_convs Math_round_double)

lemma analyzeText_fallback:
  "sentimentCall (initializeModels pipeline st) text = Inl e \<Longrightarrow>
   snd (analyzeText pipeline st text) = getFallbackAnalysis text"
  by (simp add: analyzeText_def Let_def)

lemma analyzeText_normal:
  "sentimentCall (initializeModels pipeline st) text = Inr sr \<Longrightarrow>
   snd (analyzeText pipeline st text) = analyzeWithSentiment text sr"
  by (simp add: analyzeText_def Let_def)

lemma handle_null_iff:
  "sentimentAnalyzer (initializeModels pipeline st) = None \<longleftrightarrow>
     sentimentAnalyzer st = None
     \<and> isl (pipeline ''sentiment-analysis''
               ''Xenova/distilbert-base-uncased-finetuned-sst-2-english'')"
  by (auto simp: initializeModels_def split: sum.splits if_splits)

lemma null_call:
  "sentimentAnalyzer st = None \<Longrightarrow>
   sentimentCall st text = Inr neutralSentiment"
  by (simp add: sentimentCall_def)

lemma push_if: "(if c then rf @ [l] else rf) = rf @ (if c then [l] else [])"
  by simp

lemma distinct_risk_labels: "distinct (map snd (spec_riskChecks text languageScore factualScore))"
  by (simp add: spec_riskChecks_def)

section \<open>The regular expressions of the risk checks, in words\<close>

lemma lit_startsWith:
  "lit True p s = (if spec_startsWith p s then [drop (length p) s] else [])"
proof (induction p arbitrary: s)
  case Nil
  then show ?case by (simp add: spec_startsWith_def js_def)
next
  case (Cons a p)
  then show ?case by (cases s) (auto simp: spec_startsWith_def js_def)
qed

lemma startsWith_Nil: "\<not> spec_startsWith (a # p) []"
  by (simp add: spec_startsWith_def js_def)

lemma rests_StrI: "rests (StrI p) s \<noteq> [] \<longleftrightarrow> spec_startsWith p s"
  by (simp add: lit_startsWith)

lemma test_iff: "test r s \<longleftrightarrow> (\<exists>i\<le>length s. rests r (drop i s) \<noteq> [])"
proof (induction s)
  case Nil
  then show ?case by simp
next
  case (Cons c cs)
  have "(\<exists>i\<le>length (c # cs). rests r (drop i (c # cs)) \<noteq> [])
        \<longleftrightarrow> rests r (c # cs) \<noteq> [] \<or> (\<exists>j\<le>length cs. rests r (drop j cs) \<noteq> [])"
  proof
    assume "\<exists>i\<le>length (c # cs). rests r (drop i (c # cs)) \<noteq> []"
    then obtain i where i: "i \<le> length (c # cs)" "rests r (drop i (c # cs)) \<noteq> []" by blast
    show "rests r (c # cs) \<noteq> [] \<or> (\<exists>j\<le>length cs. rests r (drop j cs) \<noteq> [])"
    proof (cases i)
      case 0
      with i show ?thesis by simp
    next
      case (Suc j)
      with i have "j \<le> length cs" "rests r (drop j cs) \<noteq> []" by simp_all
      then show ?thesis by blast
    qed
  next
    assume "rests r (c # cs) \<noteq> [] \<or> (\<exists>j\<le>length cs. rests r (drop j cs) \<noteq> [])"
    then show "\<exists>i\<le>length (c # cs). rests r (drop i (c # cs)) \<noteq> []"
    proof
      assume "rests r (c # cs) \<noteq> []"
      then have "0 \<le> length (c # cs) \<and> rests r (drop 0 (c # cs)) \<noteq> []" by simp
      then show ?thesis by blast
    next
      assume "\<exists>j\<le>length cs. rests r (drop j cs) \<noteq> []"
      then obtain j where "j \<le> length cs" "rests r (drop j cs) \<noteq> []" by blast
      then have "Suc j \<le> length (c # cs) \<and> rests r (drop (Suc j) (c # cs)) \<noteq> []" by simp
      then show ?thesis by blast
    qed
  qed
  with Cons show ?case by simp
qed

lemma list_ex_upto: "list_ex P [0..<Suc n] \<longleftrightarrow> (\<exists>i\<le>n. P i)"
  unfolding list_ex_iff by (auto simp del: upt_Suc simp: less_Suc_eq_le)

lemma test_StrI: "test (StrI p) text \<longleftrightarrow> spec_occurs p text"
  unfolding test_iff spec_occurs_def list_ex_upto rests_StrI ..

lemma test_Alt: "test (Alt a b) s \<longleftrightarrow> test a s \<or> test b s"
  by (induction s) auto

lemma rests_StrI_set:
  "set (rests (StrI p) s) = (if spec_startsWith p s then {drop (length p) s} else {})"
  by (simp add: lit_startsWith)

lemma rests_Cls_set: "set (rests (Cls P) s) = (if s \<noteq> [] \<and> P (hd s) then {tl s} else {})"
  by (cases s) simp_all

lemma rests_Opt_set: "set (rests (Opt a) s) = set (rests a s) \<union> {s}"
  by simp

lemma rests_Seq: "rests (Seq a b) s \<noteq> [] \<longleftrightarrow> (\<exists>t\<in>set (rests a s). rests b t \<noteq> [])"
  by auto

lemma rests_optional_up:
  "rests (Seq (Opt (Cls dot)) (StrI ''up'')) t \<noteq> [] \<longleftrightarrow>
     spec_startsWith ''up'' t \<or> t \<noteq> [] \<and> dot (hd t) \<and> spec_startsWith ''up'' (tl t)"
  unfolding rests_Seq rests_Opt_set rests_Cls_set rests_StrI
  by (auto simp del: rests.simps lit.simps)

lemma rests_coverUp:
  "rests coverUp s \<noteq> [] \<longleftrightarrow>
     spec_startsWith ''cover'' s
     \<and> (spec_startsWith ''up'' (drop 5 s)
        \<or> 5 < length s \<and> dot (s ! 5) \<and> spec_startsWith ''up'' (drop 6 s))"
proof -
  have len: "length ''cover'' = 5" by simp
  have "rests coverUp s \<noteq> [] \<longleftrightarrow>
          spec_startsWith ''cover'' s
          \<and> rests (Seq (Opt (Cls dot)) (StrI ''up'')) (drop 5 s) \<noteq> []"
    unfolding coverUp_def rests_Seq [of "StrI ''cover''"] rests_StrI_set len
    by (simp del: rests.simps lit.simps)
  moreover have "drop 5 s \<noteq> [] \<longleftrightarrow> 5 < length s" by (simp add: not_le)
  moreover have "5 < length s \<Longrightarrow> hd (drop 5 s) = s ! 5" by (rule hd_drop_conv_nth)
  moreover have "tl (drop 5 s) = drop 6 s"
  proof -
    have "tl (drop 5 s) = drop (Suc 5) s" by (simp only: tl_drop drop_Suc)
    then show ?thesis by simp
  qed
  ultimately show ?thesis unfolding rests_optional_up by metis
qed

lemma test_coverUp: "test coverUp text \<longleftrightarrow> spec_coverUp text"
proof -
  have "(i + 5 < length text) = (5 < length (drop i text))" for i by auto
  moreover have "i + 5 < length text \<Longrightarrow> text ! (i + 5) = drop i text ! 5" for i
    by (simp add: add.commute)
  ultimately show ?thesis
    unfolding test_iff spec_coverUp_def list_ex_upto rests_coverUp
    by (auto simp: add.commute)
qed

lemma star_not_Nil: "star P s \<noteq> []"
  by (cases s) simp_all

lemma rests_punctuationRun:
  "rests punctuationRun s \<noteq> [] \<longleftrightarrow>
     1 < length s \<and> bangOrQuestion (s ! 0) \<and> bangOrQuestion (s ! 1)"
proof (cases s)
  case Nil
  then show ?thesis by (simp add: punctuationRun_def Plus_def)
next
  case (Cons a t)
  then show ?thesis
    by (cases t) (simp_all add: punctuationRun_def Plus_def star_not_Nil)
qed

lemma test_punctuationRun: "test punctuationRun text \<longleftrightarrow> spec_punctuated text"
proof -
  have "(\<exists>i\<le>length text. 1 < length (drop i text) \<and> bangOrQuestion (drop i text ! 0)
            \<and> bangOrQuestion (drop i text ! 1))
        \<longleftrightarrow> (\<exists>i<length text - 1. bangOrQuestion (text ! i) \<and> bangOrQuestion (text ! Suc i))"
    (is "?l \<longleftrightarrow> ?r")
  proof
    assume ?l
    then obtain i where i: "1 < length (drop i text)" "bangOrQuestion (drop i text ! 0)"
      "bangOrQuestion (drop i text ! 1)" by blast
    then have "i < length text - 1" by simp
    moreover have "drop i text ! 0 = text ! i" "drop i text ! 1 = text ! Suc i"
      using i(1) by simp_all
    ultimately show ?r using i by auto
  next
    assume ?r
    then obtain i where i: "i < length text - 1" "bangOrQuestion (text ! i)"
      "bangOrQuestion (text ! Suc i)" by blast
    then have "i \<le> length text" "1 < length (drop i text)" by simp_all
    moreover have "drop i text ! 0 = text ! i" "drop i text ! 1 = text ! Suc i"
      using i(1) by simp_all
    ultimately show ?l using i by auto
  qed
  moreover have "list_ex Q [0..<n] \<longleftrightarrow> (\<exists>i<n. Q i)" for Q and n :: nat
    by (auto simp: list_ex_iff)
  ultimately show ?thesis
    unfolding test_iff rests_punctuationRun spec_punctuated_def by (simp only:)
qed

lemma match_count_class: "match_count (Cls P) text = length (filter P text)"
  by (induction "text") auto

lemma capsRatio_exceeds: "js_greater (capsRatio text) 0.3 \<longleftrightarrow> spec_capitalized text"
  by (simp add: js_greater_def capsRatio_def spec_capitalized_def match_count_class)

lemma test_clickbaitRisk:
  "test clickbaitRisk text \<longleftrightarrow>
     spec_occurs ''you won't believe'' text \<or> spec_occurs ''shocking'' text
     \<or> spec_occurs ''amazing'' text"
  unfolding clickbaitRisk_def test_Alt test_StrI ..

lemma test_conspiracyRisk:
  "test conspiracyRisk text \<longleftrightarrow>
     spec_occurs ''they don't want you to know'' text \<or> spec_occurs ''hidden truth'' text
     \<or> spec_coverUp text"
  unfolding conspiracyRisk_def test_Alt test_StrI test_coverUp ..

lemma test_attributionPattern: "test attributionPattern text \<longleftrightarrow> spec_attributed text"
  unfolding attributionPattern_def test_Alt test_StrI spec_attributed_def ..

lemma identifyRiskFactors_checks:
  "identifyRiskFactors text languageScore factualScore
     = map snd (filter fst (spec_riskChecks text languageScore factualScore))"
  unfolding identifyRiskFactors_def Let_def push_if spec_riskChecks_def
    test_clickbaitRisk test_conspiracyRisk test_attributionPattern test_punctuationRun
    capsRatio_exceeds
  by simp

lemma identifyRiskFactors_distinct:
  "distinct (identifyRiskFactors text languageScore factualScore)"
  unfolding identifyRiskFactors_checks
  using distinct_risk_labels by (simp add: distinct_map_filter)

section \<open>The stubs and the example texts, evaluated\<close>

lemma stub_call:
  "sentimentCall (initializeModels failingPipeline (loaded (stubClassifier l p))) t
     = Inr [\<lparr> label = l, score = p \<rparr>]"
  by (simp add: sentimentCall_def initializeModels_def loaded_def stubClassifier_def)

lemma throwing_call:
  "sentimentCall (initializeModels failingPipeline (loaded throwingClassifier)) t
     = Inl (Thrown ''inference failed'')"
  by (simp add: sentimentCall_def initializeModels_def loaded_def throwingClassifier_def)

lemma unloaded_stays_null:
  "sentimentAnalyzer (initializeModels failingPipeline unloaded) = None"
  by (simp add: initializeModels_def unloaded_def failingPipeline_def)

lemma shockingExample_units:
  "shockingExample =
     [83, 72, 79, 67, 75, 73, 78, 71, 33, 33, 32, 89, 111, 117, 32, 119, 111, 110, 39, 116,
      32, 98, 101, 108, 105, 101, 118, 101, 32, 116, 104, 105, 115, 32, 97, 109, 97, 122,
      105, 110, 103, 32, 115, 101, 99, 114, 101, 116, 32, 116, 104, 101, 121, 32, 100, 111,
      110, 39, 116, 32, 119, 97, 110, 116, 32, 121, 111, 117, 32, 116, 111, 32, 107, 110,
      111, 119, 33, 33, 33]"
  by (simp add: shockingExample_def js_def)

lemma shocking_clickbait_tests:
  "test (StrI ''you won't believe'') shockingExample"
  "test (StrI ''shocking'') shockingExample"
  "test (StrI ''amazing'') shockingExample"
  "\<not> test (StrI ''incredible'') shockingExample"
  "\<not> test (StrI ''unbelievable'') shockingExample"
  "\<not> test (StrI ''must see'') shockingExample"
  "\<not> test (StrI ''viral'') shockingExample"
  unfolding shockingExample_units
  by (simp_all add: canonicalize_def)

lemma shocking_emotional_tests:
  "\<not> test (StrI ''devastating'') shockingExample"
  "\<not> test (StrI ''outrageous'') shockingExample"
  "\<not> test (StrI ''scandal'') shockingExample"
  "\<not> test (StrI ''explosive'') shockingExample"
  "\<not> test (StrI ''bombshell'') shockingExample"
  unfolding shockingExample_units
  by (simp_all add: canonicalize_def)

lemma shocking_absolute_tests:
  "\<not> test (StrI ''always'') shockingExample"
  "\<not> test (StrI ''never'') shockingExample"
  "\<not> test (StrI ''everyone'') shockingExample"
  "\<not> test (StrI ''nobody'') shockingExample"
  "\<not> test (Seq (StrI ''all '') (Seq (Star dot) (StrI '' are''))) shockingExample"
  "\<not> test (StrI ''completely'') shockingExample"
  "\<not> test (StrI ''totally'') shockingExample"
  unfolding shockingExample_units
  by (simp_all add: canonicalize_def dot_def)

lemma shocking_conspiracy_tests:
  "test (StrI ''they don't want you to know'') shockingExample"
  "\<not> test (StrI ''hidden truth'') shockingExample"
  "\<not> test coverUp shockingExample"
  "\<not> test (StrI ''mainstream media'') shockingExample"
  "\<not> test (StrI ''wake up'') shockingExample"
  unfolding shockingExample_units coverUp_def
  by (simp_all add: canonicalize_def dot_def)

lemma shocking_credible_tests:
  "\<not> test (Str ''.edu'') shockingExample"
  "\<not> test (Str ''.gov'') shockingExample"
  "\<not> test (StrI ''reuters'') shockingExample"
  "\<not> test (StrI ''associated press'') shockingExample"
  "\<not> test (StrI ''bbc'') shockingExample"
  "\<not> test (Seq (StrI ''peer'') (Seq (Opt (Cls dot)) (StrI ''reviewed''))) shockingExample"
  "\<not> test (StrI ''journal'') shockingExample"
  "\<not> test (StrI ''university'') shockingExample"
  unfolding shockingExample_units
  by (simp_all add: canonicalize_def dot_def)

lemma shocking_unreliable_tests:
  "\<not> test (StrI ''blog'') shockingExample"
  "\<not> test (StrI ''facebook post'') shockingExample"
  "\<not> test (StrI ''twitter'') shockingExample"
  "\<not> test (StrI ''anonymous source'') shockingExample"
  "\<not> test (StrI ''leaked'') shockingExample"
  "\<not> test (StrI ''exclusive'') shockingExample"
  unfolding shockingExample_units
  by (simp_all add: canonicalize_def)

lemma shocking_other_tests:
  "\<not> test hasNumbersPattern shockingExample"
  "\<not> test attributionPattern shockingExample"
  "test clickbaitRisk shockingExample"
  "test conspiracyRisk shockingExample"
  "test punctuationRun shockingExample"
  unfolding shockingExample_units hasNumbersPattern_def attributionPattern_def clickbaitRisk_def conspiracyRisk_def coverUp_def punctuationRun_def Plus_def
  by (simp_all add: canonicalize_def dot_def digit_def bangOrQuestion_def)

lemma shocking_length: "length shockingExample = 79"
  unfolding shockingExample_units by simp

lemma shocking_caps: "capsRatio shockingExample = Some (9 / 79)"
  unfolding shockingExample_units capsRatio_def
  by (simp add: upperAZ_def)

lemma shocking_punctuation: "match_count punctuationRun shockingExample = 2"
  unfolding shockingExample_units punctuationRun_def Plus_def
  by (simp add: bangOrQuestion_def)

lemma shocking_clickbait:
  "length (filter (\<lambda>pattern. test pattern shockingExample) clickbaitPatterns) = 3"
  unfolding clickbaitPatterns_def by (simp add: shocking_clickbait_tests)

lemma shocking_emotional:
  "length (filter (\<lambda>pattern. test pattern shockingExample) emotionalWords) = 0"
  unfolding emotionalWords_def by (simp add: shocking_emotional_tests)

lemma shocking_absolute:
  "length (filter (\<lambda>pattern. test pattern shockingExample) absolutePatterns) = 0"
  unfolding absolutePatterns_def by (simp add: shocking_absolute_tests)

lemma shocking_conspiracy:
  "length (filter (\<lambda>pattern. test pattern shockingExample) conspiracyPatterns) = 1"
  unfolding conspiracyPatterns_def by (simp add: shocking_conspiracy_tests)

lemma shocking_credible:
  "length (filter (\<lambda>pattern. test pattern shockingExample) crediblePatterns) = 0"
  unfolding crediblePatterns_def by (simp add: shocking_credible_tests)

lemma shocking_unreliable:
  "length (filter (\<lambda>pattern. test pattern shockingExample) unreliablePatterns) = 0"
  unfolding unreliablePatterns_def by (simp add: shocking_unreliable_tests)

lemma shocking_language: "analyzeLanguagePatterns shockingExample = 35"
  unfolding analyzeLanguagePatterns_def Let_def shocking_clickbait shocking_emotional
    shocking_caps shocking_punctuation
  by (simp add: js_greater_def)

lemma shocking_factual: "analyzeFactualConsistency shockingExample = 60"
  unfolding analyzeFactualConsistency_def Let_def shocking_absolute shocking_conspiracy
  by (simp add: shocking_other_tests)

lemma shocking_source: "analyzeSourceReliability shockingExample = 40"
  unfolding analyzeSourceReliability_def Let_def shocking_credible shocking_unreliable
  by (simp add: shocking_other_tests)

lemma shocking_risks:
  "identifyRiskFactors shockingExample languageScore factualScore =
     (if languageScore < 50 then [''Suspicious language patterns detected''] else [])
     @ (if factualScore < 50 then [''Lack of factual substantiation''] else [])
     @ [''Clickbait-style language'', ''Conspiracy-style rhetoric'', ''Excessive punctuation'']"
  unfolding identifyRiskFactors_def Let_def push_if shocking_caps
  by (simp add: shocking_other_tests shocking_length js_greater_def)

text \<open>The weighted sum of the example text, operation by operation.\<close>

lemma shocking_language_term: "js_mul 35 (5404319552844595 / 18014398509481984) = 21 / 2"
  unfolding js_mul_def by (subst binary64_eval [where e = "3"]) (simp_all add: round_even_def)

lemma shocking_factual_term: "js_mul 60 (5404319552844595 / 18014398509481984) = 18"
  unfolding js_mul_def by (subst binary64_eval [where e = "4"]) (simp_all add: round_even_def)

lemma shocking_source_term: "js_mul 40 (3602879701896397 / 18014398509481984) = 8"
  unfolding js_mul_def by (subst binary64_eval [where e = "3"]) (simp_all add: round_even_def)

lemma neutral_adjusted: "js_mul (1 / 2) 100 = 50"
  unfolding js_mul_def by (subst binary64_eval [where e = "5"]) (simp_all add: round_even_def)

lemma neutral_term: "js_mul 50 (3602879701896397 / 18014398509481984) = 10"
  unfolding js_mul_def by (subst binary64_eval [where e = "3"]) (simp_all add: round_even_def)

lemma neutral_sum_a: "js_add (21 / 2) 10 = 41 / 2"
  unfolding js_add_def by (subst binary64_eval [where e = "4"]) (simp_all add: round_even_def)

lemma neutral_sum_b: "js_add (41 / 2) 18 = 77 / 2"
  unfolding js_add_def by (subst binary64_eval [where e = "5"]) (simp_all add: round_even_def)

lemma neutral_sum_c: "js_add (77 / 2) 8 = 93 / 2"
  unfolding js_add_def by (subst binary64_eval [where e = "5"]) (simp_all add: round_even_def)

lemma zero_sum_a: "js_add (21 / 2) 0 = 21 / 2"
  unfolding js_add_def by (subst binary64_eval [where e = "3"]) (simp_all add: round_even_def)

lemma zero_sum_b: "js_add (21 / 2) 18 = 57 / 2"
  unfolding js_add_def by (subst binary64_eval [where e = "4"]) (simp_all add: round_even_def)

lemma zero_sum_c: "js_add (57 / 2) 8 = 73 / 2"
  unfolding js_add_def by (subst binary64_eval [where e = "5"]) (simp_all add: round_even_def)

lemma double_09: "binary64 (9 / 10) = 8106479329266893 / 9007199254740992"
  by (subst binary64_eval [where e = "-1"]) (simp_all add: round_even_def)

lemma nine_sub: "js_sub 1 (8106479329266893 / 9007199254740992) = 900719925474099 / 9007199254740992"
  unfolding js_sub_def by (subst binary64_eval [where e = "-4"]) (simp_all add: round_even_def)

lemma nine_adjusted: "js_mul (900719925474099 / 9007199254740992) 100 = 5629499534213119 / 562949953421312"
  unfolding js_mul_def by (subst binary64_eval [where e = "3"]) (simp_all add: round_even_def)

lemma nine_term: "js_mul (5629499534213119 / 562949953421312) (3602879701896397 / 18014398509481984) = 9007199254740991 / 4503599627370496"
  unfolding js_mul_def by (subst binary64_eval [where e = "0"]) (simp_all add: round_even_def)

lemma nine_sum_a: "js_add (21 / 2) (9007199254740991 / 4503599627370496) = 25 / 2"
  unfolding js_add_def by (subst binary64_eval [where e = "3"]) (simp_all add: round_even_def)

lemma nine_sum_b: "js_add (25 / 2) 18 = 61 / 2"
  unfolding js_add_def by (subst binary64_eval [where e = "4"]) (simp_all add: round_even_def)

lemma nine_sum_c: "js_add (61 / 2) 8 = 77 / 2"
  unfolding js_add_def by (subst binary64_eval [where e = "5"]) (simp_all add: round_even_def)

lemma binary64_tenth: "binary64 (1 / 10) = 3602879701896397 / 36028797018963968"
  by (subst binary64_eval [where e = "-4"]) (simp_all add: round_even_def)

lemma tenth_adjusted: "js_mul (3602879701896397 / 36028797018963968) 100 = 10"
  unfolding js_mul_def by (subst binary64_eval [where e = "3"]) (simp_all add: round_even_def)

lemma tenth_term: "js_mul 10 (3602879701896397 / 18014398509481984) = 2"
  unfolding js_mul_def by (subst binary64_eval [where e = "1"]) (simp_all add: round_even_def)

lemma tenth_sum_a: "js_add (21 / 2) 2 = 25 / 2"
  unfolding js_add_def by (subst binary64_eval [where e = "3"]) (simp_all add: round_even_def)

lemma double_0995: "binary64 (199 / 200) = 8962163258467287 / 9007199254740992"
  by (subst binary64_eval [where e = "-1"]) (simp_all add: round_even_def)

lemma factor_0995: "js_mul (8962163258467287 / 9007199254740992) 100 = 199 / 2"
  unfolding js_mul_def by (subst binary64_eval [where e = "6"]) (simp_all add: round_even_def)

lemma factor_075: "js_mul (3 / 4) 100 = 75"
  unfolding js_mul_def by (subst binary64_eval [where e = "6"]) (simp_all add: round_even_def)

lemma quarter_sub: "js_sub 1 (3 / 4) = 1 / 4"
  unfolding js_sub_def by (subst binary64_eval [where e = "-2"]) (simp_all add: round_even_def)

lemma quarter_adjusted: "js_mul (1 / 4) 100 = 25"
  unfolding js_mul_def by (subst binary64_eval [where e = "4"]) (simp_all add: round_even_def)

lemma js_mul_zero: "js_mul 0 b = 0"
  unfolding js_mul_def by (simp add: binary64_zero)

lemma shocking_weighted:
  "credibilityScore (analyzeWithSentiment shockingExample sr) =
     Math_round (js_add (js_add (js_add (21 / 2)
        (js_mul (if isNegativeSentimentOf sr then js_mul (js_sub 1 (sentimentScoreOf sr)) 100
                 else js_mul (sentimentScoreOf sr) 100) (3602879701896397 / 18014398509481984))) 18) 8)"
  unfolding normal_fields(1) shocking_language shocking_factual shocking_source
    binary64_03 binary64_02
  by (simp add: shocking_language_term shocking_factual_term shocking_source_term)

lemma shocking_neutral:
  "credibilityScore (analyzeWithSentiment shockingExample neutralSentiment) = 47"
  unfolding shocking_weighted
  by (simp add: neutralSentiment_def sentimentScoreOf_def isNegativeSentimentOf_def
      neutral_adjusted neutral_term neutral_sum_a neutral_sum_b neutral_sum_c Math_round_def)

lemma viralStory_units:
  "viralStory = [97, 32, 118, 105, 114, 97, 108, 32, 115, 116, 111, 114, 121]"
  by (simp add: viralStory_def js_def)

lemma viral_tests:
  "test (StrI ''viral'') viralStory"
  "\<not> test clickbaitRisk viralStory"
  unfolding viralStory_units clickbaitRisk_def
  by (simp_all add: canonicalize_def)

lemma fortyFive_counts:
  "spec_questionMarks fortyFiveWords = 0"
  "spec_exclamations fortyFiveWords = 0"
  "spec_wordCount fortyFiveWords = 45"
  by (simp_all add: fortyFiveWords_def js_def spec_questionMarks_def spec_exclamations_def
      spec_wordCount_def)

lemma fortyFive_fallback:
  "credibilityScore (getFallbackAnalysis fortyFiveWords) = 75"
  "classification (getFallbackAnalysis fortyFiveWords) = uncertain"
  unfolding fallback_fields fortyFive_counts
  by (simp_all add: spec_clamp_def Math_round_def)

section \<open>The displayed sentiment factor\<close>

text \<open>
  C1, as amended. For a classifier result with a probability \<open>p\<close> above 0 and at most 1
  the sentiment factor shown in the result is \<open>Math.round(p * 100)\<close>, the product rounded
  to binary64, whatever the label.
\<close>

theorem displayed_sentiment_factor:
  assumes "sentimentCall (initializeModels pipeline st) text = Inr (r # rs)"
      and "0 < score r" and "score r \<le> 1"
      and "res = snd (analyzeText pipeline st text)"
  shows "sentimentAnalysis (factors res) = Math_round (js_mul (score r) 100)"
  using assms by (simp add: analyzeText_normal normal_fields(2) sentimentScoreOf_def)

text \<open>An instance: the label \<open>POSITIVE\<close> with the binary64 value nearest to 0.995, whose
  product with 100 is 99.5 in binary64, shows 100.\<close>

theorem displayed_sentiment_factor_witness:
  "sentimentCall (initializeModels failingPipeline
       (loaded (stubClassifier ''POSITIVE'' (binary64 (199 / 200))))) shockingExample
     = Inr [\<lparr> label = ''POSITIVE'', score = binary64 (199 / 200) \<rparr>]
   \<and> sentimentAnalysis (factors (snd (analyzeText failingPipeline
       (loaded (stubClassifier ''POSITIVE'' (binary64 (199 / 200)))) shockingExample))) = 100"
  using displayed_sentiment_factor [OF stub_call _ _ refl,
      of "''POSITIVE''" "binary64 (199 / 200)" shockingExample]
  by (simp add: stub_call double_0995 factor_0995 Math_round_def)

text \<open>The claim as it was stated asks for \<open>Math.round((1 - p) * 100)\<close> under the label
  \<open>NEGATIVE\<close>: with the probability 0.75 that is 25, and the result shows 75.\<close>

theorem displayed_sentiment_negative_counterexample:
  "sentimentAnalysis (factors (snd (analyzeText failingPipeline
       (loaded (stubClassifier ''NEGATIVE'' (3 / 4))) shockingExample)))
     \<noteq> Math_round (js_mul (js_sub 1 (3 / 4)) 100)"
  by (simp add: analyzeText_normal [OF stub_call] normal_fields(2) sentimentScoreOf_def
      factor_075 quarter_sub quarter_adjusted Math_round_def)

section \<open>The fallback analysis\<close>

text \<open>
  C2. When the call of the sentiment classifier throws, the result is the fallback
  analysis: its credibility score is \<open>70 - 5 * q - 3 * e + min (w / 10) 15\<close>, clamped to
  the range from 30 to 85 and rounded (\<open>q\<close> question marks, \<open>e\<close> exclamation marks,
  \<open>w\<close> words); its sentiment factor is the constant 60, the other three factors are the
  sub-scores of the text, and its confidence level is 75 whatever the text.
\<close>

theorem fallback_when_classifier_throws:
  assumes "sentimentCall (initializeModels pipeline st) text = Inl e"
      and "res = snd (analyzeText pipeline st text)"
  shows "credibilityScore res =
           Math_round (spec_clamp (70 - 5 * real (spec_questionMarks text)
                                 - 3 * real (spec_exclamations text)
                                 + min (real (spec_wordCount text) / 10) 15) 30 85)
       \<and> sentimentAnalysis (factors res) = 60
       \<and> languagePattern (factors res) = analyzeLanguagePatterns text
       \<and> factualConsistency (factors res) = analyzeFactualConsistency text
       \<and> sourceReliability (factors res) = analyzeSourceReliability text
       \<and> confidenceLevel res = 75"
  using assms by (simp add: analyzeText_fallback fallback_fields)

theorem fallback_when_classifier_throws_witness:
  "sentimentCall (initializeModels failingPipeline (loaded throwingClassifier))
       (js ''Is it true? Yes!'') = Inl (Thrown ''inference failed'')
   \<and> credibilityScore (snd (analyzeText failingPipeline (loaded throwingClassifier)
         (js ''Is it true? Yes!''))) = 62
   \<and> confidenceLevel (snd (analyzeText failingPipeline (loaded throwingClassifier)
         (js ''Is it true? Yes!''))) = 75"
proof -
  have h: "sentimentCall (initializeModels failingPipeline (loaded throwingClassifier))
       (js ''Is it true? Yes!'') = Inl (Thrown ''inference failed'')"
    by (simp add: sentimentCall_def initializeModels_def loaded_def throwingClassifier_def)
  have t: "js ''Is it true? Yes!'' =
      [73, 115, 32, 105, 116, 32, 116, 114, 117, 101, 63, 32, 89, 101, 115, 33]"
    by (simp add: js_def)
  have c: "Math_round (spec_clamp (70 - 5 * real (spec_questionMarks (js ''Is it true? Yes!''))
                                 - 3 * real (spec_exclamations (js ''Is it true? Yes!''))
                                 + min (real (spec_wordCount (js ''Is it true? Yes!'')) / 10) 15) 30 85) = 62"
    unfolding t by (simp add: spec_questionMarks_def spec_exclamations_def spec_wordCount_def
        spec_clamp_def Math_round_def)
  from fallback_when_classifier_throws [OF h refl] h c show ?thesis by simp
qed

section \<open>Ranges\<close>

text \<open>
  C3. If the classifier, where it answers, gives a probability between 0 and 1, then on
  the normal path and on the fallback path alike the four factors and the credibility
  score lie between 0 and 100 and the confidence level between 0 and 95.
\<close>

theorem scores_in_range:
  assumes prob: "\<forall>r rs. sentimentCall (initializeModels pipeline st) text = Inr (r # rs)
                   \<longrightarrow> 0 \<le> score r \<and> score r \<le> 1"
      and res: "res = snd (analyzeText pipeline st text)"
  shows "0 \<le> languagePattern (factors res) \<and> languagePattern (factors res) \<le> 100
       \<and> 0 \<le> sentimentAnalysis (factors res) \<and> sentimentAnalysis (factors res) \<le> 100
       \<and> 0 \<le> factualConsistency (factors res) \<and> factualConsistency (factors res) \<le> 100
       \<and> 0 \<le> sourceReliability (factors res) \<and> sourceReliability (factors res) \<le> 100
       \<and> 0 \<le> credibilityScore res \<and> credibilityScore res \<le> 100
       \<and> 0 \<le> confidenceLevel res \<and> confidenceLevel res \<le> 95"
proof (cases "sentimentCall (initializeModels pipeline st) text")
  case (Inl e)
  then have r: "res = getFallbackAnalysis text"
    using res by (simp add: analyzeText_fallback)
  let ?x = "spec_clamp (70 - 5 * real (spec_questionMarks text) - 3 * real (spec_exclamations text)
                     + min (real (spec_wordCount text) / 10) 15) 30 85"
  have "30 \<le> ?x" "?x \<le> 85" by (simp_all add: spec_clamp_def)
  then have "0 \<le> Math_round ?x" "Math_round ?x \<le> 100"
    unfolding Math_round_def by linarith+
  then show ?thesis
    using language_bounds [of "text"] factual_bounds [of "text"] source_bounds [of "text"]
    by (simp add: r fallback_fields)
next
  case (Inr sr)
  then have r: "res = analyzeWithSentiment text sr"
    using res by (simp add: analyzeText_normal)
  have "\<forall>r rs. sr = r # rs \<longrightarrow> 0 \<le> score r \<and> score r \<le> 1"
    using prob Inr by simp
  then have p: "0 \<le> sentimentScoreOf sr" "sentimentScoreOf sr \<le> 1"
    using sentimentScoreOf_range by blast+
  note a = adjusted_range [OF p, of "isNegativeSentimentOf sr"]
  have h: "(0::real) \<le> 100" "(100::real) \<le> 100" by simp_all
  note m = js_mul_bound [OF p(1) h(1) p(2) h(2) factor_max]
  from m have "Math_round 0 \<le> Math_round (js_mul (sentimentScoreOf sr) 100)"
            "Math_round (js_mul (sentimentScoreOf sr) 100) \<le> Math_round 100"
    by (simp_all only: Math_round_mono)
  then have s: "0 \<le> Math_round (js_mul (sentimentScoreOf sr) 100)"
               "Math_round (js_mul (sentimentScoreOf sr) 100) \<le> 100"
    using Math_round_of_int [of 0] Math_round_of_int [of 100] by simp_all
  have c: "0 \<le> credibilityScore res" "credibilityScore res \<le> 100"
    unfolding r normal_fields
    using weighted_range [OF _ _ _ _ _ _ a] language_bounds [of "text"]
      factual_bounds [of "text"] source_bounds [of "text"] by blast+
  have k: "0 \<le> confidenceLevel res" "confidenceLevel res \<le> 95"
    unfolding r normal_fields(4) by simp_all
  show ?thesis
    using c k s language_bounds [of "text"] factual_bounds [of "text"] source_bounds [of "text"]
    by (simp add: r normal_fields(2))
qed

theorem scores_in_range_witness:
  "sentimentCall (initializeModels failingPipeline
       (loaded (stubClassifier ''POSITIVE'' (15 / 16)))) shockingExample
     = Inr [\<lparr> label = ''POSITIVE'', score = 15 / 16 \<rparr>]
   \<and> 0 \<le> credibilityScore (snd (analyzeText failingPipeline
       (loaded (stubClassifier ''POSITIVE'' (15 / 16))) shockingExample))
   \<and> credibilityScore (snd (analyzeText failingPipeline
       (loaded (stubClassifier ''POSITIVE'' (15 / 16))) shockingExample)) \<le> 100
   \<and> 0 \<le> confidenceLevel (snd (analyzeText failingPipeline
       (loaded (stubClassifier ''POSITIVE'' (15 / 16))) shockingExample))
   \<and> confidenceLevel (snd (analyzeText failingPipeline
       (loaded (stubClassifier ''POSITIVE'' (15 / 16))) shockingExample)) \<le> 95"
proof -
  have h: "\<forall>r rs. sentimentCall (initializeModels failingPipeline
       (loaded (stubClassifier ''POSITIVE'' (15 / 16)))) shockingExample = Inr (r # rs)
      \<longrightarrow> 0 \<le> score r \<and> score r \<le> 1"
    by (simp add: stub_call)
  from scores_in_range [OF h refl] show ?thesis by (simp add: stub_call)
qed

section \<open>Classification\<close>

text \<open>
  C4. The claim: in every result the classification is \<open>trustworthy\<close> exactly from a
  credibility score of 75 on, \<open>misleading\<close> exactly up to 40, and \<open>uncertain\<close>
  between. The normal path classifies the rounded score and keeps to it. The fallback
  analysis classifies the score before \<open>Math.round\<close> and returns the rounded one: for the
  text of 45 words without question or exclamation marks, with a classifier that throws,
  the score is 74.5, so the result carries the credibility score 75 and the classification
  \<open>uncertain\<close>.
\<close>

theorem fallback_classifies_before_rounding:
  "credibilityScore (snd (analyzeText failingPipeline (loaded throwingClassifier)
       fortyFiveWords)) = 75
   \<and> classification (snd (analyzeText failingPipeline (loaded throwingClassifier)
       fortyFiveWords)) = uncertain"
  by (simp add: analyzeText_fallback [OF throwing_call] fortyFive_fallback)

section \<open>The weighted credibility score\<close>

text \<open>
  C5, as amended. On the normal path, for a classifier result with a probability \<open>p\<close>
  above 0 and at most 1, the credibility score is \<open>Math.round\<close> of the weighted sum
  \<open>languageScore * 0.3 + adjusted * 0.2 + factualScore * 0.3 + sourceScore * 0.2\<close>,
  evaluated in binary64 from left to right, where \<open>adjusted\<close> is \<open>(1 - p) * 100\<close> for the
  label \<open>NEGATIVE\<close> and \<open>p * 100\<close> otherwise.
\<close>

theorem normal_path_credibility:
  assumes "sentimentCall (initializeModels pipeline st) text = Inr (r # rs)"
      and "0 < score r" and "score r \<le> 1"
      and "res = snd (analyzeText pipeline st text)"
  shows "credibilityScore res =
           Math_round (js_add (js_add (js_add
              (js_mul (real_of_int (analyzeLanguagePatterns text)) (binary64 0.3))
              (js_mul (if label r = ''NEGATIVE'' then js_mul (js_sub 1 (score r)) 100
                       else js_mul (score r) 100) (binary64 0.2)))
              (js_mul (real_of_int (analyzeFactualConsistency text)) (binary64 0.3)))
              (js_mul (real_of_int (analyzeSourceReliability text)) (binary64 0.2)))"
proof -
  have "sentimentScoreOf (r # rs) = score r"
       "isNegativeSentimentOf (r # rs) = (label r = ''NEGATIVE'')"
    using assms(2) by (simp_all add: sentimentScoreOf_def isNegativeSentimentOf_def)
  then show ?thesis
    using assms(1,4) by (simp only: analyzeText_normal normal_fields(1))
qed

text \<open>An instance: the example text with the label \<open>NEGATIVE\<close> and the binary64 value
  nearest to 0.9. The sum is 38.5 in binary64 and the score 39.\<close>

theorem normal_path_credibility_witness:
  "sentimentCall (initializeModels failingPipeline
       (loaded (stubClassifier ''NEGATIVE'' (binary64 (9 / 10))))) shockingExample
     = Inr [\<lparr> label = ''NEGATIVE'', score = binary64 (9 / 10) \<rparr>]
   \<and> credibilityScore (snd (analyzeText failingPipeline
       (loaded (stubClassifier ''NEGATIVE'' (binary64 (9 / 10)))) shockingExample)) = 39"
  using normal_path_credibility [OF stub_call _ _ refl,
      of "''NEGATIVE''" "binary64 (9 / 10)" shockingExample]
  by (simp add: stub_call double_09 shocking_language shocking_factual shocking_source
      binary64_03 binary64_fifth shocking_language_term shocking_factual_term
      shocking_source_term nine_sub nine_adjusted nine_term nine_sum_a nine_sum_b nine_sum_c
      Math_round_def)

text \<open>
  For the probability 0 the source takes the default 0.5 (\<open>score || 0.5\<close>), so the claim
  without the lower bound fails: with the label \<open>POSITIVE\<close> and the probability 0 the
  credibility score of the example text is 47, and the formula of the claim gives 37.
\<close>

theorem normal_path_credibility_zero_counterexample:
  "credibilityScore (snd (analyzeText failingPipeline
       (loaded (stubClassifier ''POSITIVE'' 0)) shockingExample))
     \<noteq> Math_round (js_add (js_add (js_add
           (js_mul (real_of_int (analyzeLanguagePatterns shockingExample)) (binary64 0.3))
           (js_mul (js_mul 0 100) (binary64 0.2)))
           (js_mul (real_of_int (analyzeFactualConsistency shockingExample)) (binary64 0.3)))
           (js_mul (real_of_int (analyzeSourceReliability shockingExample)) (binary64 0.2)))"
  unfolding analyzeText_normal [OF stub_call] shocking_weighted
    shocking_language shocking_factual shocking_source binary64_03 binary64_02
  by (simp add: sentimentScoreOf_def isNegativeSentimentOf_def js_mul_zero
      shocking_language_term shocking_factual_term shocking_source_term
      neutral_adjusted neutral_term neutral_sum_a neutral_sum_b neutral_sum_c
      zero_sum_a zero_sum_b zero_sum_c Math_round_def)

section \<open>The confidence level\<close>

text \<open>
  C6, as amended. On the normal path the confidence level is
  \<open>min (|credibilityScore - 50| * 2) 95\<close>; on the fallback path it is the constant 75.
\<close>

theorem confidence_level:
  assumes "res = snd (analyzeText pipeline st text)"
  shows "confidenceLevel res =
           (case sentimentCall (initializeModels pipeline st) text of
              Inl e \<Rightarrow> 75
            | Inr sr \<Rightarrow> min (\<bar>credibilityScore res - 50\<bar> * 2) 95)"
  using assms
  by (cases "sentimentCall (initializeModels pipeline st) text")
     (simp_all add: analyzeText_fallback analyzeText_normal fallback_fields normal_fields(4))

theorem confidence_level_witness:
  "confidenceLevel (snd (analyzeText failingPipeline unloaded shockingExample)) = 6
   \<and> confidenceLevel (snd (analyzeText failingPipeline (loaded throwingClassifier)
        fortyFiveWords)) = 75"
  using confidence_level [OF refl, of failingPipeline unloaded shockingExample]
    confidence_level [OF refl, of failingPipeline "loaded throwingClassifier" fortyFiveWords]
  by (simp add: null_call [OF unloaded_stays_null] throwing_call
      analyzeText_normal [OF null_call [OF unloaded_stays_null]] shocking_neutral)

text \<open>On the fallback path the formula of the normal path gives 50 for the text of 45
  words, and the result says 75.\<close>

theorem confidence_level_fallback_counterexample:
  "confidenceLevel (snd (analyzeText failingPipeline (loaded throwingClassifier)
       fortyFiveWords))
     \<noteq> min (\<bar>credibilityScore (snd (analyzeText failingPipeline (loaded throwingClassifier)
                fortyFiveWords)) - 50\<bar> * 2) 95"
  by (simp add: analyzeText_fallback [OF throwing_call] fortyFive_fallback fallback_fields(4))

section \<open>The classifier that is not there\<close>

text \<open>
  C7. When the handle of the sentiment classifier is still \<open>null\<close> after
  \<open>initializeModels\<close> (by \<open>handle_null_iff\<close>: it was \<open>null\<close> before and loading it
  failed), \<open>analyzeText\<close> takes the normal path with the neutral result of probability
  0.5: the sentiment term of the weighted sum is \<open>0.5 * 100 * 0.2\<close>, which is 10 in
  binary64 as in exact arithmetic, the sentiment factor is 50, and the result is not the
  fallback analysis.
\<close>

theorem unavailable_classifier_is_neutral:
  assumes "sentimentAnalyzer (initializeModels pipeline st) = None"
      and "res = snd (analyzeText pipeline st text)"
  shows "res = analyzeWithSentiment text neutralSentiment
       \<and> credibilityScore res =
           Math_round (js_add (js_add (js_add
              (js_mul (real_of_int (analyzeLanguagePatterns text)) (binary64 0.3))
              (js_mul (js_mul 0.5 100) (binary64 0.2)))
              (js_mul (real_of_int (analyzeFactualConsistency text)) (binary64 0.3)))
              (js_mul (real_of_int (analyzeSourceReliability text)) (binary64 0.2)))
       \<and> js_mul (js_mul 0.5 100) (binary64 0.2) = 0.5 * 100 * 0.2
       \<and> sentimentAnalysis (factors res) = 50
       \<and> res \<noteq> getFallbackAnalysis text"
proof -
  let ?n = "neutralSentiment"
  have r: "res = analyzeWithSentiment text ?n"
    using assms by (simp add: analyzeText_normal null_call)
  have n: "sentimentScoreOf ?n = 0.5" "\<not> isNegativeSentimentOf ?n"
    by (simp_all add: neutralSentiment_def sentimentScoreOf_def isNegativeSentimentOf_def)
  have c: "credibilityScore res =
           Math_round (js_add (js_add (js_add
              (js_mul (real_of_int (analyzeLanguagePatterns text)) (binary64 0.3))
              (js_mul (js_mul 0.5 100) (binary64 0.2)))
              (js_mul (real_of_int (analyzeFactualConsistency text)) (binary64 0.3)))
              (js_mul (real_of_int (analyzeSourceReliability text)) (binary64 0.2)))"
    by (simp only: r normal_fields(1) n if_False)
  have t: "js_mul (js_mul 0.5 100) (binary64 0.2) = 0.5 * 100 * 0.2"
    by (simp add: neutral_adjusted binary64_fifth neutral_term)
  have f: "sentimentAnalysis (factors res) = 50"
    unfolding r normal_fields(2)
    by (simp add: neutralSentiment_def sentimentScoreOf_def neutral_adjusted Math_round_def)
  have "sentimentAnalysis (factors (getFallbackAnalysis text)) = 60"
    by (simp add: fallback_fields)
  with f have "res \<noteq> getFallbackAnalysis text" by auto
  with r c t f show ?thesis by simp
qed

theorem unavailable_classifier_is_neutral_witness:
  "sentimentAnalyzer (initializeModels failingPipeline unloaded) = None
   \<and> credibilityScore (snd (analyzeText failingPipeline unloaded shockingExample)) = 47
   \<and> sentimentAnalysis (factors (snd (analyzeText failingPipeline unloaded
        shockingExample))) = 50
   \<and> snd (analyzeText failingPipeline unloaded shockingExample)
        \<noteq> getFallbackAnalysis shockingExample"
proof -
  note t = unavailable_classifier_is_neutral [OF unloaded_stays_null refl, of shockingExample]
  have c: "credibilityScore (snd (analyzeText failingPipeline unloaded shockingExample)) = 47"
    unfolding t [THEN conjunct1] by (rule shocking_neutral)
  show ?thesis
    by (intro conjI unloaded_stays_null c
        t [THEN conjunct2, THEN conjunct2, THEN conjunct2, THEN conjunct1]
        t [THEN conjunct2, THEN conjunct2, THEN conjunct2, THEN conjunct2])
qed

section \<open>Risk factors\<close>

text \<open>
  C8, as amended. The list of risk factors of the returned result is the list of the
  labels of the checks that hold, in the order of the checks, and no label occurs twice.
  The checks are: language score below 50 and factual score below 50, where the scores are
  the language and factual factors of the result on the normal path and the constant 60
  on the fallback path; one of the phrases \<open>you won't believe\<close>, \<open>shocking\<close>,
  \<open>amazing\<close> occurs; one of \<open>they don't want you to know\<close>, \<open>hidden truth\<close>,
  \<open>cover.?up\<close> occurs; capital ratio above 0.3; two neighbouring \<open>!\<close> or \<open>?\<close>; and no
  attribution word in a text longer than 100.
\<close>

theorem risk_factors_in_check_order:
  assumes "res = snd (analyzeText pipeline st text)"
  shows "riskFactors res =
           map snd (filter fst (spec_riskChecks text
             (case sentimentCall (initializeModels pipeline st) text of
                Inl e \<Rightarrow> 60 | Inr sr \<Rightarrow> languagePattern (factors res))
             (case sentimentCall (initializeModels pipeline st) text of
                Inl e \<Rightarrow> 60 | Inr sr \<Rightarrow> factualConsistency (factors res))))
       \<and> distinct (riskFactors res)"
proof (cases "sentimentCall (initializeModels pipeline st) text")
  case (Inl e)
  then have "res = getFallbackAnalysis text" using assms by (simp add: analyzeText_fallback)
  then show ?thesis
    using Inl
    by (simp add: fallback_fields(3) identifyRiskFactors_distinct
        identifyRiskFactors_checks [symmetric])
next
  case (Inr sr)
  then have "res = analyzeWithSentiment text sr" using assms by (simp add: analyzeText_normal)
  then show ?thesis
    using Inr
    by (simp add: normal_fields(2,3) identifyRiskFactors_distinct
        identifyRiskFactors_checks [symmetric])
qed

text \<open>An instance: the example text on the normal path, with the language factor 35 and
  the factual factor 60.\<close>

theorem risk_factors_in_check_order_witness:
  "map snd (filter fst (spec_riskChecks shockingExample 35 60))
     = [''Suspicious language patterns detected'', ''Clickbait-style language'',
        ''Conspiracy-style rhetoric'', ''Excessive punctuation'']
   \<and> distinct (riskFactors (snd (analyzeText failingPipeline unloaded shockingExample)))"
proof -
  note t = risk_factors_in_check_order [OF refl, of failingPipeline unloaded shockingExample]
  note n = analyzeText_normal [OF null_call [OF unloaded_stays_null]]
  have "map snd (filter fst (spec_riskChecks shockingExample 35 60))
          = riskFactors (snd (analyzeText failingPipeline unloaded shockingExample))"
    using t [THEN conjunct1]
    by (simp add: null_call [OF unloaded_stays_null] n normal_fields(2)
        shocking_language shocking_factual)
  also have "\<dots> = [''Suspicious language patterns detected'', ''Clickbait-style language'',
        ''Conspiracy-style rhetoric'', ''Excessive punctuation'']"
    by (simp add: n normal_fields(3) shocking_risks shocking_language shocking_factual)
  finally show ?thesis using t [THEN conjunct2] by blast
qed

text \<open>
  The claim as it was stated lets every clickbait match append its label. The phrase
  \<open>viral\<close> is one of the clickbait phrases of the language score, and a text with it
  gets no clickbait label.
\<close>

theorem risk_factors_clickbait_counterexample:
  "0 < length (filter (\<lambda>pattern. test pattern viralStory) clickbaitPatterns)
   \<and> ''Clickbait-style language''
        \<notin> set (riskFactors (snd (analyzeText failingPipeline unloaded viralStory)))"
proof -
  have "StrI ''viral'' \<in> set (filter (\<lambda>pattern. test pattern viralStory) clickbaitPatterns)"
    by (simp add: clickbaitPatterns_def viral_tests)
  then have "0 < length (filter (\<lambda>pattern. test pattern viralStory) clickbaitPatterns)"
    by (metis length_pos_if_in_set)
  moreover have "''Clickbait-style language''
        \<notin> set (riskFactors (snd (analyzeText failingPipeline unloaded viralStory)))"
    unfolding analyzeText_normal [OF null_call [OF unloaded_stays_null]] normal_fields(3)
      identifyRiskFactors_def Let_def push_if
    by (simp add: viral_tests)
  ultimately show ?thesis by blast
qed

text \<open>
  C10. The risk factors of the fallback analysis never contain the labels of the two score
  checks, whatever the language and factual factors of the same result are: the fallback
  analysis passes the constant 60 for both scores.
\<close>

theorem fallback_risk_factors_ignore_scores:
  "''Suspicious language patterns detected'' \<notin> set (riskFactors (getFallbackAnalysis text))
   \<and> ''Lack of factual substantiation'' \<notin> set (riskFactors (getFallbackAnalysis text))"
  unfolding fallback_fields identifyRiskFactors_def Let_def push_if by simp

text \<open>An instance: the language factor of the example text is 35, and the fallback
  analysis does not report it.\<close>

theorem fallback_risk_factors_ignore_scores_witness:
  "languagePattern (factors (getFallbackAnalysis shockingExample)) = 35
   \<and> ''Suspicious language patterns detected''
        \<notin> set (riskFactors (getFallbackAnalysis shockingExample))
   \<and> ''Lack of factual substantiation''
        \<notin> set (riskFactors (getFallbackAnalysis shockingExample))"
  using fallback_risk_factors_ignore_scores [of shockingExample]
  by (simp add: fallback_fields(2) shocking_language)

section \<open>The example of the specification\<close>

text \<open>
  C9, as amended. For the example text, three clickbait patterns and one conspiracy pattern
  match, the capital ratio is 9 / 79 (below 0.3), and the risk factors are the language
  label, the clickbait label, the conspiracy label and the punctuation label, without the
  capitalization label. With a stubbed classifier that answers \<open>NEGATIVE\<close> with a
  probability of at least 0.9 the classification is \<open>misleading\<close>.
\<close>

theorem shocking_example:
  assumes call: "sentimentCall (initializeModels pipeline st) shockingExample
                   = Inr (\<lparr> label = ''NEGATIVE'', score = p \<rparr> # rs)"
      and p: "9 / 10 \<le> p" "p \<le> 1"
      and res: "res = snd (analyzeText pipeline st shockingExample)"
  shows "length (filter (\<lambda>pattern. test pattern shockingExample) clickbaitPatterns) = 3
       \<and> length (filter (\<lambda>pattern. test pattern shockingExample) conspiracyPatterns) = 1
       \<and> capsRatio shockingExample = Some (9 / 79)
       \<and> riskFactors res = [''Suspicious language patterns detected'',
            ''Clickbait-style language'', ''Conspiracy-style rhetoric'',
            ''Excessive punctuation'']
       \<and> classification res = misleading"
proof -
  let ?sr = "\<lparr> label = ''NEGATIVE'', score = p \<rparr> # rs"
  let ?c2 = "3602879701896397 / 18014398509481984 :: real"
  have r: "res = analyzeWithSentiment shockingExample ?sr"
    using call res by (simp add: analyzeText_normal)
  have s: "sentimentScoreOf ?sr = p" "isNegativeSentimentOf ?sr"
    using p by (simp_all add: sentimentScoreOf_def isNegativeSentimentOf_def)
  have e: "credibilityScore res =
      Math_round (js_add (js_add (js_add (21 / 2) (js_mul (js_mul (js_sub 1 p) 100) ?c2)) 18) 8)"
    unfolding r shocking_weighted using s by simp
  have "1 - p \<le> 1 / 10" "p \<le> 1" using p by simp_all
  note d = js_sub_bound [OF this(2) this(1) binary64_tenth]
  have h: "(0::real) \<le> 100" "(100::real) \<le> 100" "0 \<le> ?c2" "?c2 \<le> ?c2"
          "(0::real) \<le> 21 / 2" "(21 / 2 :: real) \<le> 21 / 2"
          "(0::real) \<le> 18" "(18::real) \<le> 18" "(0::real) \<le> 8" "(8::real) \<le> 8"
    by simp_all
  note a = js_mul_bound [OF d(1) h(1) d(2) h(2) tenth_adjusted]
  note t = js_mul_bound [OF a(1) h(3) a(2) h(4) tenth_term]
  note s1 = js_add_bound [OF h(5) t(1) h(6) t(2) tenth_sum_a]
  note s2 = js_add_bound [OF s1(1) h(7) s1(2) h(8) nine_sum_b]
  note s3 = js_add_bound [OF s2(1) h(9) s2(2) h(10) nine_sum_c]
  have "credibilityScore res \<le> Math_round (77 / 2)"
    unfolding e using s3(2) by (rule Math_round_mono)
  then have c: "credibilityScore res \<le> 40" by (simp add: Math_round_def)
  have "classification res = misleading"
    using c unfolding r normal_fields(5) by simp
  moreover have "riskFactors res = [''Suspicious language patterns detected'',
            ''Clickbait-style language'', ''Conspiracy-style rhetoric'',
            ''Excessive punctuation'']"
    unfolding r normal_fields(3) shocking_risks shocking_language shocking_factual by simp
  ultimately show ?thesis
    by (simp add: shocking_clickbait shocking_conspiracy shocking_caps)
qed

theorem shocking_example_witness:
  "sentimentCall (initializeModels failingPipeline
       (loaded (stubClassifier ''NEGATIVE'' (15 / 16)))) shockingExample
     = Inr [\<lparr> label = ''NEGATIVE'', score = 15 / 16 \<rparr>]
   \<and> classification (snd (analyzeText failingPipeline
       (loaded (stubClassifier ''NEGATIVE'' (15 / 16))) shockingExample)) = misleading
   \<and> riskFactors (snd (analyzeText failingPipeline
       (loaded (stubClassifier ''NEGATIVE'' (15 / 16))) shockingExample))
       = [''Suspicious language patterns detected'', ''Clickbait-style language'',
          ''Conspiracy-style rhetoric'', ''Excessive punctuation'']"
  using shocking_example [OF stub_call _ _ refl, of "15 / 16"]
  by (simp add: stub_call)

text \<open>
  The claim as it was stated has a capital ratio above 0.3 and the capitalization label
  among the risk factors. Neither holds; and with the neutral default for the sentiment
  the credibility score is 47 and the classification \<open>uncertain\<close>.
\<close>

theorem shocking_example_caps_counterexample:
  "\<not> js_greater (capsRatio shockingExample) 0.3
   \<and> ''Excessive capitalization''
        \<notin> set (riskFactors (snd (analyzeText failingPipeline unloaded shockingExample)))
   \<and> classification (snd (analyzeText failingPipeline unloaded shockingExample)) = uncertain"
  unfolding analyzeText_normal [OF null_call [OF unloaded_stays_null]]
    normal_fields(3,5) shocking_neutral shocking_risks shocking_caps
  by (simp add: js_greater_def)

end
